theory Spec2Isabelle
  imports Complex_Main "HOL-Library.AList"
begin

section \<open>The Supabase bridge (supabase-bridge.js)\<close>

text \<open>
  The bridge is a browser script: six exported asynchronous operations around a backend
  client found at \<open>window.supabase\<close>, with a JSON cache in \<open>localStorage\<close> and a
  document event \<open>sb:admin-synced\<close>. The embedding keeps JavaScript's dynamic values
  as one datatype, every \<open>throw\<close> as a value \<open>Inl e\<close>, and the page's mutable parts
  (storage, dispatched events, navigations, requests sent, clock reads) as a record that
  each operation takes and returns. Every \<open>await\<close> of the source is a sequential call:
  a single operation is followed from its call to its settlement. The warning logged at
  load time when the client is missing, and the registration of the six operations on
  \<open>window.supabaseBridge\<close>, do nothing to that state and are left out.
\<close>

subsection \<open>JavaScript values\<close>

text \<open>
  A number is a double: not-a-number, the two infinities, or a finite value, kept as the
  rational it denotes (the two zeros are one value here: both are falsy, and both print
  and serialise as \<open>0\<close>).
\<close>

datatype jsnum = NaN | Fin rat | PosInf | NegInf

text \<open>
  An object is the list of its own properties in insertion order; an array is the list of
  its elements. (JavaScript lists integer-like names before the others; the objects this
  script builds get such names only from spreading an array or a string, first and in
  ascending order.)
\<close>

datatype jsval =
    JUndefined
  | JNull
  | JBool bool
  | JNum jsnum
  | JStr string
  | JArr "jsval list"
  | JObj "(string \<times> jsval) list"

datatype exn =
    Thrown jsval
  | TypeError
  | SyntaxError
  | StorageError

subsection \<open>The backend client\<close>

text \<open>
  A request is one finished chain of the client's query builder:
  \<^item> \<open>Select t cols eqs order limit\<close> is \<open>from(t).select(cols)\<close> with its \<open>.eq\<close> filters,
    its \<open>.order(col, {ascending})\<close> and its \<open>.limit\<close>;
  \<^item> \<open>Insert t rows\<close> is \<open>from(t).insert(rows)\<close>;
  \<^item> \<open>UpdateOne t fields eqs cols\<close> is \<open>from(t).update(fields).eq(..).select(cols).single()\<close>;
  \<^item> \<open>Delete t eqs\<close> is \<open>from(t).delete().eq(..)\<close>;
  \<^item> \<open>Rpc f args\<close> is \<open>rpc(f, args)\<close>, and \<open>GetSession\<close> is \<open>auth.getSession()\<close>.

  The client answers a request with an object that has \<open>data\<close> and \<open>error\<close>, or the
  awaited promise rejects (\<open>Inl\<close>). No operation of the bridge sends the same request
  twice, so a function from requests to answers describes any backend during one call.
\<close>

datatype request =
    Select string string "(string \<times> jsval) list" "(string \<times> bool) option" "nat option"
  | Insert string "jsval list"
  | UpdateOne string jsval "(string \<times> jsval) list" string
  | Delete string "(string \<times> jsval) list"
  | Rpc string jsval
  | GetSession

record response =
  data :: jsval
  error :: jsval

type_synonym client = "request \<Rightarrow> exn + response"

subsection \<open>The host: window, built-ins, clock and storage limits\<close>

text \<open>
  What the browser supplies and the script does not define is a parameter:
  \<open>window.supabase\<close> (absent or a client), the number-to-string and string-to-number
  conversions, the JSON parser (\<open>None\<close> is its SyntaxError) and serialiser, the clock
  (the time value at the n-th read) with \<open>toISOString\<close>, and the two ways the storage
  can refuse: no access at all, or a write over the quota.
\<close>

record host =
  supabase :: "client option"
  number_to_string :: "jsnum \<Rightarrow> string"
  string_to_number :: "string \<Rightarrow> jsnum"
  json_parse :: "string \<Rightarrow> jsval option"
  json_text :: "jsval \<Rightarrow> string"
  clock :: "nat \<Rightarrow> nat"
  iso_string :: "nat \<Rightarrow> string"
  storage_denied :: bool
  quota_exceeded :: "(string \<rightharpoonup> string) \<Rightarrow> string \<Rightarrow> string \<Rightarrow> bool"

subsection \<open>The page state\<close>

record page =
  localStorage :: "string \<rightharpoonup> string"
  events :: "string list"
  navigations :: "string list"
  requests :: "request list"
  clock_reads :: nat

type_synonym 'a js = "page \<Rightarrow> (exn + 'a) \<times> page"

definition ret :: "'a \<Rightarrow> 'a js" where
  "ret x = (\<lambda>st. (Inr x, st))"

definition throw :: "exn \<Rightarrow> 'a js" where
  "throw e = (\<lambda>st. (Inl e, st))"

definition lift :: "exn + 'a \<Rightarrow> 'a js" where
  "lift r = (\<lambda>st. (r, st))"

definition andThen :: "'a js \<Rightarrow> ('a \<Rightarrow> 'b js) \<Rightarrow> 'b js" where
  "andThen m f = (\<lambda>st. case m st of (Inl e, st') \<Rightarrow> (Inl e, st') | (Inr x, st') \<Rightarrow> f x st')"

definition try_catch :: "'a js \<Rightarrow> (exn \<Rightarrow> 'a js) \<Rightarrow> 'a js" where
  "try_catch m h = (\<lambda>st. case m st of (Inl e, st') \<Rightarrow> h e st' | (Inr x, st') \<Rightarrow> (Inr x, st'))"

subsection \<open>Language primitives\<close>

fun truthy :: "jsval \<Rightarrow> bool" where
  "truthy JUndefined = False"
| "truthy JNull = False"
| "truthy (JBool b) = b"
| "truthy (JNum n) = (n \<noteq> NaN \<and> n \<noteq> Fin 0)"
| "truthy (JStr s) = (s \<noteq> [])"
| "truthy (JArr xs) = True"
| "truthy (JObj kvs) = True"

definition nullish :: "jsval \<Rightarrow> bool" where
  "nullish v = (v = JUndefined \<or> v = JNull)"

text \<open>\<open>a || b\<close> and \<open>a ?? b\<close>, on values already computed (the right operands in this
  script are literals or property reads that cannot throw once the left one was read).\<close>

definition js_or :: "jsval \<Rightarrow> jsval \<Rightarrow> jsval" where
  "js_or a b = (if truthy a then a else b)"

definition js_coalesce :: "jsval \<Rightarrow> jsval \<Rightarrow> jsval" where
  "js_coalesce a b = (if nullish a then b else a)"

fun join :: "string \<Rightarrow> string list \<Rightarrow> string" where
  "join sep [] = []"
| "join sep [x] = x"
| "join sep (x # y # ys) = x @ sep @ join sep (y # ys)"

text \<open>\<open>String(v)\<close>: an array joins its elements with commas, null and undefined
  elements as the empty string; a plain object prints as \<open>[object Object]\<close>.\<close>

fun ToString :: "host \<Rightarrow> jsval \<Rightarrow> string" where
  "ToString w JUndefined = ''undefined''"
| "ToString w JNull = ''null''"
| "ToString w (JBool b) = (if b then ''true'' else ''false'')"
| "ToString w (JNum n) = number_to_string w n"
| "ToString w (JStr s) = s"
| "ToString w (JArr xs) =
     join '','' (map (\<lambda>x. if x = JUndefined \<or> x = JNull then [] else ToString w x) xs)"
| "ToString w (JObj kvs) = ''[object Object]''"

text \<open>\<open>Number(v)\<close>: an array or object is first converted to its string.\<close>

fun ToNumber :: "host \<Rightarrow> jsval \<Rightarrow> jsnum" where
  "ToNumber w JUndefined = NaN"
| "ToNumber w JNull = Fin 0"
| "ToNumber w (JBool b) = (if b then Fin 1 else Fin 0)"
| "ToNumber w (JNum n) = n"
| "ToNumber w (JStr s) = string_to_number w s"
| "ToNumber w (JArr xs) = string_to_number w (ToString w (JArr xs))"
| "ToNumber w (JObj kvs) = string_to_number w (ToString w (JObj kvs))"

text \<open>
  Reading a data property. The names this script reads (\<open>id\<close>, \<open>name\<close>, \<open>price\<close>,
  \<open>session\<close>, ...) are neither indices nor members of a prototype, so \<open>field v k\<close>,
  the value of \<open>v.k\<close> when \<open>v\<close> is not null or undefined, is the own property of
  an object and undefined on everything else. \<open>v.k\<close> itself is a TypeError on null
  and undefined; \<open>v?.k\<close> is undefined there.
\<close>

fun field :: "jsval \<Rightarrow> string \<Rightarrow> jsval" where
  "field (JObj kvs) k = (case map_of kvs k of None \<Rightarrow> JUndefined | Some v \<Rightarrow> v)"
| "field v k = JUndefined"

definition read_prop :: "jsval \<Rightarrow> string \<Rightarrow> exn + jsval" where
  "read_prop v k = (if nullish v then Inl TypeError else Inr (field v k))"

definition opt_prop :: "jsval \<Rightarrow> string \<Rightarrow> jsval" where
  "opt_prop v k = (if nullish v then JUndefined else field v k)"

text \<open>\<open>k in v\<close> for the same names: a TypeError unless \<open>v\<close> is an object or an array.\<close>

fun has_prop :: "string \<Rightarrow> jsval \<Rightarrow> exn + bool" where
  "has_prop k (JObj kvs) = Inr (k \<in> fst ` set kvs)"
| "has_prop k (JArr xs) = Inr False"
| "has_prop k v = Inl TypeError"

text \<open>The own enumerable properties that \<open>{...v}\<close> copies: none of a primitive but a
  string's characters, the indexed elements of an array, the properties of an object.\<close>

fun indexed :: "host \<Rightarrow> nat \<Rightarrow> jsval list \<Rightarrow> (string \<times> jsval) list" where
  "indexed w i [] = []"
| "indexed w i (x # xs) = (number_to_string w (Fin (of_nat i)), x) # indexed w (Suc i) xs"

fun spread :: "host \<Rightarrow> jsval \<Rightarrow> (string \<times> jsval) list" where
  "spread w (JObj kvs) = kvs"
| "spread w (JArr xs) = indexed w 0 xs"
| "spread w (JStr s) = indexed w 0 (map (\<lambda>c. JStr [c]) s)"
| "spread w v = []"

text \<open>Defining properties one after the other, as an object literal does: a name
  already there keeps its place and takes the new value.\<close>

definition define_all :: "(string \<times> jsval) list \<Rightarrow> (string \<times> jsval) list \<Rightarrow> (string \<times> jsval) list" where
  "define_all kvs new = foldl (\<lambda>acc (k, v). AList.update k v acc) kvs new"

subsection \<open>Built-ins the script calls\<close>

text \<open>\<open>JSON.parse(x)\<close> converts its argument to a string first; the text \<open>null\<close> is the
  value null, every other text is the host parser's.\<close>

definition JSON_parse :: "host \<Rightarrow> jsval \<Rightarrow> exn + jsval" where
  "JSON_parse w x =
     (let text = ToString w x in
      if text = ''null'' then Inr JNull
      else case json_parse w text of None \<Rightarrow> Inl SyntaxError | Some v \<Rightarrow> Inr v)"

text \<open>\<open>JSON.stringify(v)\<close> is undefined for undefined and a text for every other value of
  \<open>jsval\<close> (there are no cycles to refuse); null serialises as \<open>null\<close>.\<close>

definition JSON_stringify :: "host \<Rightarrow> jsval \<Rightarrow> jsval" where
  "JSON_stringify w v =
     (case v of JUndefined \<Rightarrow> JUndefined | JNull \<Rightarrow> JStr ''null'' | _ \<Rightarrow> JStr (json_text w v))"

definition getItem :: "host \<Rightarrow> string \<Rightarrow> jsval js" where
  "getItem w k = (\<lambda>st.
     if storage_denied w then (Inl StorageError, st)
     else (Inr (case localStorage st k of None \<Rightarrow> JNull | Some s \<Rightarrow> JStr s), st))"

definition setItem :: "host \<Rightarrow> string \<Rightarrow> jsval \<Rightarrow> jsval js" where
  "setItem w k v = (\<lambda>st.
     if storage_denied w \<or> quota_exceeded w (localStorage st) k (ToString w v)
     then (Inl StorageError, st)
     else (Inr JUndefined, st\<lparr>localStorage := (localStorage st)(k \<mapsto> ToString w v)\<rparr>))"

definition Date_now :: "host \<Rightarrow> jsval js" where
  "Date_now w = (\<lambda>st.
     (Inr (JNum (Fin (of_nat (clock w (clock_reads st))))), st\<lparr>clock_reads := Suc (clock_reads st)\<rparr>))"

text \<open>Sending a request to the client and awaiting the answer.\<close>

definition await :: "client \<Rightarrow> request \<Rightarrow> response js" where
  "await sb req = (\<lambda>st. (sb req, st\<lparr>requests := requests st @ [req]\<rparr>))"

subsection \<open>LocalStorage helpers\<close>

text \<open>
  \<^verbatim>\<open>get(k, def){ try{ return JSON.parse(localStorage.getItem(k)) ?? def; }catch{ return def; } }\<close>
  \<^verbatim>\<open>set(k, v){ try{ localStorage.setItem(k, JSON.stringify(v)); }catch{} }\<close>
\<close>

definition LS_get :: "host \<Rightarrow> string \<Rightarrow> jsval \<Rightarrow> jsval js" where
  "LS_get w k def =
     try_catch
       (andThen (getItem w k) (\<lambda>item.
        andThen (lift (JSON_parse w item)) (\<lambda>parsed.
        ret (js_coalesce parsed def))))
       (\<lambda>e. ret def)"

definition LS_set :: "host \<Rightarrow> string \<Rightarrow> jsval \<Rightarrow> jsval js" where
  "LS_set w k v =
     andThen (try_catch (setItem w k (JSON_stringify w v)) (\<lambda>e. ret JUndefined)) (\<lambda>_.
     ret JUndefined)"

text \<open>\<^verbatim>\<open>const nowISO = () => new Date().toISOString();\<close>\<close>

definition nowISO :: "host \<Rightarrow> jsval js" where
  "nowISO w = (\<lambda>st.
     (Inr (JStr (iso_string w (clock w (clock_reads st)))), st\<lparr>clock_reads := Suc (clock_reads st)\<rparr>))"

text \<open>
  \<^verbatim>\<open>function fireSyncedEvent(){ try { document.dispatchEvent(new Event('sb:admin-synced')); } catch {} }\<close>
  The state records the dispatch; the function returns normally whether or not the host
  has a document, so its callers continue the same way in both cases.
\<close>

definition fireSyncedEvent :: "jsval js" where
  "fireSyncedEvent = (\<lambda>st. (Inr JUndefined, st\<lparr>events := events st @ [''sb:admin-synced'']\<rparr>))"

text \<open>\<^verbatim>\<open>try{ location.href = loginUrl; }catch{}\<close>, recorded the same way.\<close>

definition redirect :: "host \<Rightarrow> jsval \<Rightarrow> jsval js" where
  "redirect w url = (\<lambda>st. (Inr JUndefined, st\<lparr>navigations := navigations st @ [ToString w url]\<rparr>))"

subsection \<open>Array methods\<close>

text \<open>\<open>xs.map(f)\<close>, \<open>xs.findIndex(p)\<close>, \<open>xs.filter(p)\<close> and \<open>xs.unshift(x)\<close>: on a value
  that is not an array the method is missing and the call is a TypeError; a callback that
  throws ends the loop.\<close>

fun map_js :: "('a \<Rightarrow> 'b js) \<Rightarrow> 'a list \<Rightarrow> 'b list js" where
  "map_js f [] st = (Inr [], st)"
| "map_js f (x # xs) st =
     (case f x st of
        (Inl e, st1) \<Rightarrow> (Inl e, st1)
      | (Inr y, st1) \<Rightarrow>
          (case map_js f xs st1 of
             (Inl e, st2) \<Rightarrow> (Inl e, st2)
           | (Inr ys, st2) \<Rightarrow> (Inr (y # ys), st2)))"

definition Array_map :: "(jsval \<Rightarrow> jsval js) \<Rightarrow> jsval \<Rightarrow> jsval js" where
  "Array_map f v =
     (case v of
        JArr xs \<Rightarrow> andThen (map_js f xs) (\<lambda>ys. ret (JArr ys))
      | _ \<Rightarrow> throw TypeError)"

fun find_index :: "('a \<Rightarrow> exn + bool) \<Rightarrow> 'a list \<Rightarrow> exn + nat option" where
  "find_index p [] = Inr None"
| "find_index p (x # xs) =
     (case p x of
        Inl e \<Rightarrow> Inl e
      | Inr True \<Rightarrow> Inr (Some 0)
      | Inr False \<Rightarrow>
          (case find_index p xs of
             Inl e \<Rightarrow> Inl e
           | Inr None \<Rightarrow> Inr None
           | Inr (Some i) \<Rightarrow> Inr (Some (Suc i))))"

definition Array_findIndex :: "(jsval \<Rightarrow> exn + bool) \<Rightarrow> jsval \<Rightarrow> exn + nat option" where
  "Array_findIndex p v = (case v of JArr xs \<Rightarrow> find_index p xs | _ \<Rightarrow> Inl TypeError)"

fun filter_js :: "('a \<Rightarrow> exn + bool) \<Rightarrow> 'a list \<Rightarrow> exn + 'a list" where
  "filter_js p [] = Inr []"
| "filter_js p (x # xs) =
     (case p x of
        Inl e \<Rightarrow> Inl e
      | Inr b \<Rightarrow>
          (case filter_js p xs of
             Inl e \<Rightarrow> Inl e
           | Inr ys \<Rightarrow> Inr (if b then x # ys else ys)))"

definition Array_filter :: "(jsval \<Rightarrow> exn + bool) \<Rightarrow> jsval \<Rightarrow> exn + jsval" where
  "Array_filter p v =
     (case v of
        JArr xs \<Rightarrow> (case filter_js p xs of Inl e \<Rightarrow> Inl e | Inr ys \<Rightarrow> Inr (JArr ys))
      | _ \<Rightarrow> Inl TypeError)"

definition Array_unshift :: "jsval \<Rightarrow> jsval \<Rightarrow> exn + jsval" where
  "Array_unshift v x = (case v of JArr xs \<Rightarrow> Inr (JArr (x # xs)) | _ \<Rightarrow> Inl TypeError)"

subsection \<open>Public catalog\<close>

definition categories_query :: request where
  "categories_query = Select ''categories'' ''id,name,sort'' [] (Some (''sort'', True)) None"

text \<open>The column list of the menu query quotes \<open>desc\<close>; the quote is the character
  \<open>0x22\<close>.\<close>

definition menu_items_query :: request where
  "menu_items_query =
     Select ''menu_items''
       (''id,name,'' @ [CHR 0x22] @ ''desc'' @ [CHR 0x22] @
        '',price,img,cat_id,available,fresh,rating_avg,rating_count,created_at'')
       [(''available'', JBool True)] (Some (''created_at'', False)) None"

text \<open>The callback of \<open>items.data.map\<close>: the object it returns for a row, and the
  callback itself, whose first read, \<open>it.id\<close>, throws on a null row. (\<open>it.desc\<close> and
  \<open>it["desc"]\<close> read the same property.)\<close>

definition adapted_item :: "host \<Rightarrow> jsval \<Rightarrow> jsval" where
  "adapted_item w it =
     JObj
       [(''id'', field it ''id''),
        (''name'', field it ''name''),
        (''desc'', js_coalesce (js_coalesce (field it ''desc'') (field it ''desc'')) (JStr [])),
        (''price'', js_or (JNum (ToNumber w (field it ''price''))) (JNum (Fin 0))),
        (''img'', js_or (field it ''img'') (JStr [])),
        (''cat_id'', js_or (field it ''cat_id'') JNull),
        (''available'', JBool (truthy (field it ''available''))),
        (''fresh'', JBool (truthy (field it ''fresh''))),
        (''rating_avg'', js_or (JNum (ToNumber w (field it ''rating_avg''))) (JNum (Fin 0))),
        (''rating_count'', js_or (JNum (ToNumber w (field it ''rating_count''))) (JNum (Fin 0))),
        (''created_at'', field it ''created_at'')]"

definition adapt_item :: "host \<Rightarrow> jsval \<Rightarrow> jsval js" where
  "adapt_item w it = (if nullish it then throw TypeError else ret (adapted_item w it))"

definition syncPublicCatalogToLocal :: "host \<Rightarrow> jsval js" where
  "syncPublicCatalogToLocal w =
     (case supabase w of
        None \<Rightarrow> ret JUndefined
      | Some sb \<Rightarrow>
          andThen (await sb categories_query) (\<lambda>cats.
          if truthy (error cats) then throw (Thrown (error cats)) else
          andThen (await sb menu_items_query) (\<lambda>items.
          if truthy (error items) then throw (Thrown (error items)) else
          andThen (Array_map (adapt_item w) (js_or (data items) (JArr []))) (\<lambda>adapted.
          andThen (LS_set w ''categories'' (js_or (data cats) (JArr []))) (\<lambda>_.
          andThen (LS_set w ''menuItemsVisible'' adapted) (\<lambda>_.
          ret (JObj [(''categories'', js_or (data cats) (JArr [])), (''items'', adapted)])))))))"

subsection \<open>Admin guard\<close>

definition admin_check :: "jsval \<Rightarrow> request" where
  "admin_check uid = Rpc ''is_admin'' (JObj [(''u'', uid)])"

definition probe_query :: request where
  "probe_query = Select ''reservations'' ''id'' [] None (Some 1)"

definition isCurrentUserAdminRPC :: "host \<Rightarrow> jsval \<Rightarrow> jsval js" where
  "isCurrentUserAdminRPC w uid =
     try_catch
       (case supabase w of
          None \<Rightarrow> throw TypeError
        | Some sb \<Rightarrow>
            andThen (await sb (admin_check uid)) (\<lambda>r.
            if truthy (error r) then ret (JBool False)
            else ret (JBool (truthy (data r)))))
       (\<lambda>e. ret (JBool False))"

definition probeAdminBySelect :: "host \<Rightarrow> jsval js" where
  "probeAdminBySelect w =
     try_catch
       (case supabase w of
          None \<Rightarrow> throw TypeError
        | Some sb \<Rightarrow>
            andThen (await sb probe_query) (\<lambda>r.
            ret (JBool (\<not> truthy (error r)))))
       (\<lambda>e. ret (JBool False))"

text \<open>A parameter default \<open>p = d\<close> applies when the argument is undefined.\<close>

definition default_param :: "jsval \<Rightarrow> jsval \<Rightarrow> jsval" where
  "default_param v d = (if v = JUndefined then d else v)"

definition requireAdminOrRedirect :: "host \<Rightarrow> jsval \<Rightarrow> jsval js" where
  "requireAdminOrRedirect w loginUrl_arg =
     (let loginUrl = default_param loginUrl_arg (JStr ''login.html'') in
      case supabase w of
        None \<Rightarrow> ret (JBool False)
      | Some sb \<Rightarrow>
          andThen (await sb GetSession) (\<lambda>res.
          andThen (lift (read_prop (data res) ''session'')) (\<lambda>session.
          if \<not> truthy (opt_prop (opt_prop session ''user'') ''id'')
          then andThen (redirect w loginUrl) (\<lambda>_. ret (JBool False))
          else
            let uid = field (field session ''user'') ''id'' in
            andThen (isCurrentUserAdminRPC w uid) (\<lambda>rpc_ok.
            andThen (if truthy rpc_ok then ret rpc_ok else probeAdminBySelect w) (\<lambda>ok.
            if \<not> truthy ok
            then andThen (redirect w loginUrl) (\<lambda>_. ret (JBool False))
            else ret (JBool True))))))"

subsection \<open>Admin sync\<close>

definition reservations_columns :: string where
  "reservations_columns = ''id,name,phone,date,people,status,notes,table_no,duration_minutes''"

definition reservations_query :: request where
  "reservations_query =
     Select ''reservations'' reservations_columns [] (Some (''date'', True)) None"

text \<open>The callback of \<open>rs.data.map\<close>: the object it returns for a row at a given
  time stamp, and the callback itself: \<open>r.id\<close> throws on a null row, and the clock is
  read once for each row.\<close>

definition reservation_entry :: "host \<Rightarrow> jsval \<Rightarrow> jsval \<Rightarrow> jsval" where
  "reservation_entry w r now =
     JObj
       [(''id'', field r ''id''),
        (''name'', field r ''name''),
        (''phone'', js_or (field r ''phone'') (JStr [])),
        (''date'', field r ''date''),
        (''people'', js_or (JNum (ToNumber w (field r ''people''))) (JNum (Fin 1))),
        (''status'', js_or (field r ''status'') (JStr ''new'')),
        (''notes'', js_or (field r ''notes'') (JStr [])),
        (''table'', js_or (field r ''table_no'') (JStr [])),
        (''duration'', js_or (JNum (ToNumber w (field r ''duration_minutes''))) (JNum (Fin 90))),
        (''updatedAt'', now)]"

definition adapt_reservation :: "host \<Rightarrow> jsval \<Rightarrow> jsval js" where
  "adapt_reservation w r =
     (if nullish r then throw TypeError
      else andThen (nowISO w) (\<lambda>now. ret (reservation_entry w r now)))"

definition syncAdminDataToLocal :: "host \<Rightarrow> jsval js" where
  "syncAdminDataToLocal w =
     (case supabase w of
        None \<Rightarrow> ret JUndefined
      | Some sb \<Rightarrow>
          andThen (await sb reservations_query) (\<lambda>rs.
          if truthy (error rs) then throw (Thrown (error rs)) else
          andThen (Array_map (adapt_reservation w) (js_or (data rs) (JArr []))) (\<lambda>reservations.
          andThen (LS_set w ''reservations'' reservations) (\<lambda>_.
          andThen fireSyncedEvent (\<lambda>_.
          ret (JObj [(''reservations'', reservations)]))))))"

subsection \<open>Reservations: create, update, delete\<close>

text \<open>
  \<open>createReservationSB({name, phone, iso, people, kind='table', table='', notes='',
  duration_minutes=90})\<close>: the parameter is destructured when the function is
  called, before its first statement, so a null or undefined payload is a TypeError.
\<close>

definition insert_row :: "jsval \<Rightarrow> jsval" where
  "insert_row payload =
     JObj
       [(''name'', field payload ''name''),
        (''phone'', field payload ''phone''),
        (''date'', field payload ''iso''),
        (''people'', field payload ''people''),
        (''kind'', default_param (field payload ''kind'') (JStr ''table'')),
        (''table_no'', default_param (field payload ''table'') (JStr [])),
        (''duration_minutes'', default_param (field payload ''duration_minutes'') (JNum (Fin 90))),
        (''notes'', default_param (field payload ''notes'') (JStr []))]"

definition optimistic_entry :: "host \<Rightarrow> jsval \<Rightarrow> jsval \<Rightarrow> jsval \<Rightarrow> jsval" where
  "optimistic_entry w payload t now =
     JObj
       [(''id'', JStr (''tmp_'' @ ToString w t)),
        (''name'', field payload ''name''),
        (''phone'', field payload ''phone''),
        (''date'', field payload ''iso''),
        (''people'', field payload ''people''),
        (''status'', JStr ''new''),
        (''notes'', js_or (default_param (field payload ''notes'') (JStr [])) (JStr [])),
        (''table'', js_or (default_param (field payload ''table'') (JStr [])) (JStr [])),
        (''duration'',
           js_or (JNum (ToNumber w (default_param (field payload ''duration_minutes'') (JNum (Fin 90)))))
             (JNum (Fin 90))),
        (''updatedAt'', now)]"

definition createReservationSB :: "host \<Rightarrow> jsval \<Rightarrow> jsval js" where
  "createReservationSB w payload =
     (if nullish payload then throw TypeError
      else
        case supabase w of
          None \<Rightarrow> ret JUndefined
        | Some sb \<Rightarrow>
            andThen (await sb (Insert ''reservations'' [insert_row payload])) (\<lambda>ins.
            if truthy (error ins) then throw (Thrown (error ins)) else
            andThen (LS_get w ''reservations'' (JArr [])) (\<lambda>list.
            andThen (Date_now w) (\<lambda>t.
            andThen (nowISO w) (\<lambda>now.
            andThen (lift (Array_unshift list (optimistic_entry w payload t now))) (\<lambda>list'.
            andThen (LS_set w ''reservations'' list') (\<lambda>_.
            andThen fireSyncedEvent (\<lambda>_.
            ret (JBool True)))))))))"

text \<open>The test of \<open>findIndex\<close> and, negated, of \<open>filter\<close>:
  \<open>String(r.id) === String(id)\<close>, a TypeError on a null entry.\<close>

definition same_id :: "host \<Rightarrow> jsval \<Rightarrow> jsval \<Rightarrow> exn + bool" where
  "same_id w rid r =
     (if nullish r then Inl TypeError
      else Inr (ToString w (field r ''id'') = ToString w rid))"

definition other_id :: "host \<Rightarrow> jsval \<Rightarrow> jsval \<Rightarrow> exn + bool" where
  "other_id w rid r =
     (if nullish r then Inl TypeError
      else Inr (ToString w (field r ''id'') \<noteq> ToString w rid))"

text \<open>The chain of \<open>if ('name' in f) patch.name = f.name; ...\<close>, as the table of the
  field names tested and the cache names assigned, in the order of the source.\<close>

definition patch_table :: "(string \<times> string) list" where
  "patch_table =
     [(''name'', ''name''), (''phone'', ''phone''), (''date'', ''date''), (''people'', ''people''),
      (''status'', ''status''), (''notes'', ''notes''), (''table_no'', ''table''),
      (''duration_minutes'', ''duration'')]"

fun build_patch :: "jsval \<Rightarrow> (string \<times> string) list \<Rightarrow> exn + (string \<times> jsval) list" where
  "build_patch f [] = Inr []"
| "build_patch f ((src, dst) # tbl) =
     (case has_prop src f of
        Inl e \<Rightarrow> Inl e
      | Inr present \<Rightarrow>
          (case build_patch f tbl of
             Inl e \<Rightarrow> Inl e
           | Inr rest \<Rightarrow> Inr ((if present then [(dst, field f src)] else []) @ rest)))"

text \<open>\<open>{ ...entry, ...patch, updatedAt: nowISO() }\<close>\<close>

definition patched_entry :: "host \<Rightarrow> jsval \<Rightarrow> (string \<times> jsval) list \<Rightarrow> jsval \<Rightarrow> jsval" where
  "patched_entry w entry patch now =
     JObj (define_all [] (spread w entry @ patch @ [(''updatedAt'', now)]))"

definition updateReservationSB :: "host \<Rightarrow> jsval \<Rightarrow> jsval \<Rightarrow> jsval js" where
  "updateReservationSB w rid fields_arg =
     (let fields = default_param fields_arg (JObj []) in
      case supabase w of
        None \<Rightarrow> ret JUndefined
      | Some sb \<Rightarrow>
          andThen (await sb (UpdateOne ''reservations'' fields [(''id'', rid)] reservations_columns)) (\<lambda>up.
          if truthy (error up) then throw (Thrown (error up)) else
          andThen (LS_get w ''reservations'' (JArr [])) (\<lambda>list.
          andThen (lift (Array_findIndex (same_id w rid) list)) (\<lambda>found.
          case found of
            None \<Rightarrow> ret (data up)
          | Some i \<Rightarrow>
              (case list of
                 JArr xs \<Rightarrow>
                   andThen (lift (build_patch (js_or fields (JObj [])) patch_table)) (\<lambda>patch.
                   andThen (nowISO w) (\<lambda>now.
                   andThen (LS_set w ''reservations'' (JArr (xs[i := patched_entry w (xs ! i) patch now]))) (\<lambda>_.
                   andThen fireSyncedEvent (\<lambda>_.
                   ret (data up)))))
               | _ \<Rightarrow> throw TypeError)))))"

definition deleteReservationSB :: "host \<Rightarrow> jsval \<Rightarrow> jsval js" where
  "deleteReservationSB w rid =
     (case supabase w of
        None \<Rightarrow> ret JUndefined
      | Some sb \<Rightarrow>
          andThen (await sb (Delete ''reservations'' [(''id'', rid)])) (\<lambda>del.
          if truthy (error del) then throw (Thrown (error del)) else
          andThen (LS_get w ''reservations'' (JArr [])) (\<lambda>list.
          andThen (lift (Array_filter (other_id w rid) list)) (\<lambda>next.
          andThen (LS_set w ''reservations'' next) (\<lambda>_.
          andThen fireSyncedEvent (\<lambda>_.
          ret (JBool True)))))))"

section \<open>Notions used in the statements\<close>

subsection \<open>What a cache write leaves in the storage\<close>

text \<open>\<open>cache_text w v\<close> is the text that \<open>LS.set(k, v)\<close> hands to the storage, and
  \<open>cache_after_set w m k v\<close> the storage it leaves behind when it found \<open>m\<close>: a refused
  write changes nothing.\<close>

definition cache_text :: "host \<Rightarrow> jsval \<Rightarrow> string" where
  "cache_text w v = ToString w (JSON_stringify w v)"

definition cache_after_set :: "host \<Rightarrow> (string \<rightharpoonup> string) \<Rightarrow> string \<Rightarrow> jsval \<Rightarrow> (string \<rightharpoonup> string)" where
  "cache_after_set w m k v =
     (if storage_denied w \<or> quota_exceeded w m k (cache_text w v) then m
      else m(k \<mapsto> cache_text w v))"

subsection \<open>The patch of an update\<close>


section \<open>Sample hosts, clients and pages\<close>

text \<open>
  A concrete host on which the operations can be run: it prints the numbers the samples
  use, reads \<open>12.5\<close> and the empty string as numbers, parses a few fixed texts,
  serialises every value to the same text, advances its clock by a millisecond at each
  read, and refuses every write under the key \<open>full\<close>. Its client is a parameter.
\<close>

definition sample_cached :: "jsval list" where
  "sample_cached =
     [JObj [(''id'', JNum (Fin 7)), (''name'', JStr ''A''), (''status'', JStr ''new''),
            (''table'', JStr ''T1''), (''duration'', JNum (Fin 90))],
      JObj [(''id'', JStr ''8''), (''name'', JStr ''B''), (''status'', JStr ''new'')]]"

definition sample_host :: "client option \<Rightarrow> host" where
  "sample_host c =
     \<lparr>supabase = c,
      number_to_string =
        (\<lambda>n. case n of
               Fin q \<Rightarrow> (if q = 7 then ''7'' else if q = 8 then ''8'' else ''1700000000000'')
             | _ \<Rightarrow> ''NaN''),
      string_to_number = (\<lambda>s. if s = ''12.5'' then Fin (25 / 2) else if s = [] then Fin 0 else NaN),
      json_parse =
        (\<lambda>s. if s = ''false'' then Some (JBool False)
             else if s = ''0'' then Some (JNum (Fin 0))
             else if s = ''[7,8]'' then Some (JArr sample_cached)
             else None),
      json_text = (\<lambda>v. ''[]''),
      clock = (\<lambda>n. 1700000000000 + n),
      iso_string =
        (\<lambda>t. if t = 1700000000000 then ''2023-11-14T22:13:20.000Z'' else ''2023-11-14T22:13:20.001Z''),
      storage_denied = False,
      quota_exceeded = (\<lambda>m k text. k = ''full'')\<rparr>"

definition empty_page :: page where
  "empty_page =
     \<lparr>localStorage = Map.empty, events = [], navigations = [], requests = [], clock_reads = 0\<rparr>"

text \<open>A page whose cache holds the text that the sample host parses to the two sample
  reservations.\<close>

definition cached_page :: page where
  "cached_page = empty_page\<lparr>localStorage := [''reservations'' \<mapsto> ''[7,8]'']\<rparr>"

text \<open>A client that grants everything: a session of user \<open>u1\<close>, an affirmed admin
  check, two reservation rows, two menu rows and one category, the updated fields as
  the updated row, and no error.\<close>

definition granting_client :: client where
  "granting_client req =
     (case req of
        GetSession \<Rightarrow>
          Inr \<lparr>data = JObj [(''session'', JObj [(''user'', JObj [(''id'', JStr ''u1'')])])],
               error = JNull\<rparr>
      | Rpc f args \<Rightarrow> Inr \<lparr>data = JBool True, error = JNull\<rparr>
      | Select t cols eqs ob n \<Rightarrow>
          (if t = ''reservations'' then
             Inr \<lparr>data = JArr
                    [JObj [(''id'', JNum (Fin 7)), (''name'', JStr ''A''), (''phone'', JNull),
                           (''date'', JStr ''2024-01-01T10:00:00Z''), (''people'', JStr ''12.5''),
                           (''status'', JStr ''confirmed''), (''notes'', JNull),
                           (''table_no'', JStr ''T4''), (''duration_minutes'', JNull)],
                     JObj [(''id'', JNum (Fin 8)), (''name'', JStr ''B'')]],
                  error = JNull\<rparr>
           else if t = ''menu_items'' then
             Inr \<lparr>data = JArr
                    [JObj [(''id'', JNum (Fin 7)), (''name'', JStr ''Soup''), (''price'', JStr ''12.5''),
                           (''available'', JBool True), (''rating_avg'', JStr ''n/a'')],
                     JObj [(''id'', JNum (Fin 8)), (''name'', JStr ''Tea''), (''desc'', JStr ''hot''),
                           (''img'', JStr ''tea.png''), (''available'', JNum (Fin 1)),
                           (''fresh'', JNum (Fin 1))]],
                  error = JNull\<rparr>
           else
             Inr \<lparr>data = JArr [JObj [(''id'', JNum (Fin 7)), (''name'', JStr ''Mains''),
                                     (''sort'', JNum (Fin 1))]],
                  error = JNull\<rparr>)
      | UpdateOne t fs eqs cols \<Rightarrow> Inr \<lparr>data = fs, error = JNull\<rparr>
      | _ \<Rightarrow> Inr \<lparr>data = JNull, error = JNull\<rparr>)"

text \<open>A client that reports an error on every request.\<close>

definition refusing_client :: client where
  "refusing_client req =
     Inr \<lparr>data = JNull, error = JObj [(''message'', JStr ''permission denied'')]\<rparr>"

text \<open>A client for the guard: the session it reports, and its answers to the admin
  check and to the probe.\<close>

definition guard_client :: "jsval \<Rightarrow> exn + response \<Rightarrow> exn + response \<Rightarrow> client" where
  "guard_client session rpc probe req =
     (case req of
        GetSession \<Rightarrow> Inr \<lparr>data = JObj [(''session'', session)], error = JNull\<rparr>
      | Rpc f args \<Rightarrow> rpc
      | Select t cols eqs ob n \<Rightarrow> probe
      | _ \<Rightarrow> Inl TypeError)"

section \<open>Properties\<close>

subsection \<open>The cache helpers, as equations\<close>

lemma LS_set_eq:
  "LS_set w k v st =
     (Inr JUndefined, st\<lparr>localStorage := cache_after_set w (localStorage st) k v\<rparr>)"
  by (simp add: LS_set_def try_catch_def andThen_def setItem_def ret_def cache_after_set_def
      cache_text_def)

lemma LS_get_eq:
  "LS_get w k d st =
     (Inr (if storage_denied w then d
           else case JSON_parse w (case localStorage st k of None \<Rightarrow> JNull | Some s \<Rightarrow> JStr s) of
                  Inl e \<Rightarrow> d
                | Inr v \<Rightarrow> js_coalesce v d), st)"
  by (simp add: LS_get_def try_catch_def andThen_def getItem_def ret_def lift_def
      split: sum.splits prod.splits)

subsection \<open>Mapping the rows\<close>

lemma adapt_reservation_step:
  "adapt_reservation w r st =
     (if nullish r then (Inl TypeError, st)
      else (Inr (reservation_entry w r (JStr (iso_string w (clock w (clock_reads st))))),
            st\<lparr>clock_reads := Suc (clock_reads st)\<rparr>))"
  by (simp add: adapt_reservation_def throw_def ret_def andThen_def nowISO_def)

lemma map_js_adapt_item:
  "map_js (adapt_item w) rows st =
     (if \<exists>r\<in>set rows. nullish r then Inl TypeError else Inr (map (adapted_item w) rows), st)"
  by (induction rows) (auto simp: adapt_item_def throw_def ret_def)

lemma map_js_adapt_reservation_ok:
  "map_js (adapt_reservation w) rows st = (Inr entries, st') \<Longrightarrow>
     length entries = length rows \<and>
     st' = st\<lparr>clock_reads := clock_reads st + length rows\<rparr> \<and>
     (\<forall>j<length rows. \<not> nullish (rows ! j) \<and>
        entries ! j =
          reservation_entry w (rows ! j) (JStr (iso_string w (clock w (clock_reads st + j)))))"
proof (induction rows arbitrary: st entries st')
  case Nil
  then show ?case by simp
next
  case (Cons r rows)
  from Cons.prems adapt_reservation_step [of w r st] obtain es where
    r: "\<not> nullish r" and
    rest: "map_js (adapt_reservation w) rows (st\<lparr>clock_reads := Suc (clock_reads st)\<rparr>) = (Inr es, st')" and
    entries: "entries = reservation_entry w r (JStr (iso_string w (clock w (clock_reads st)))) # es"
    by (auto split: if_splits sum.splits prod.splits)
  from Cons.IH [OF rest] show ?case
    using r entries by (auto simp: nth_Cons split: nat.splits)
qed

lemma map_js_adapt_reservation_frame:
  "map_js (adapt_reservation w) rows st = (r, st') \<Longrightarrow>
     localStorage st' = localStorage st \<and> events st' = events st \<and>
     navigations st' = navigations st \<and> requests st' = requests st"
proof (induction rows arbitrary: st r st')
  case Nil
  then show ?case by simp
next
  case (Cons x rows)
  show ?case
  proof (cases "nullish x")
    case True
    with Cons.prems adapt_reservation_step [of w x st] show ?thesis
      by simp
  next
    case False
    with Cons.prems adapt_reservation_step [of w x st] obtain r' where
      "map_js (adapt_reservation w) rows (st\<lparr>clock_reads := Suc (clock_reads st)\<rparr>) = (r', st')"
      by (auto split: sum.splits prod.splits)
    from Cons.IH [OF this] show ?thesis by simp
  qed
qed

subsection \<open>Successful runs of the two syncs\<close>

lemma syncAdminDataToLocal_run:
  assumes sb: "supabase w = Some sb" and run: "syncAdminDataToLocal w st = (Inr result, st')"
  shows "\<exists>rs rows entries.
      sb reservations_query = Inr rs \<and> \<not> truthy (error rs) \<and>
      js_or (data rs) (JArr []) = JArr rows \<and>
      map_js (adapt_reservation w) rows (st\<lparr>requests := requests st @ [reservations_query]\<rparr>)
        = (Inr entries, st\<lparr>requests := requests st @ [reservations_query],
                             clock_reads := clock_reads st + length rows\<rparr>) \<and>
      result = JObj [(''reservations'', JArr entries)] \<and>
      st' = st\<lparr>requests := requests st @ [reservations_query],
                 clock_reads := clock_reads st + length rows,
                 localStorage := cache_after_set w (localStorage st) ''reservations'' (JArr entries),
                 events := events st @ [''sb:admin-synced'']\<rparr>"
proof -
  let ?st1 = "st\<lparr>requests := requests st @ [reservations_query]\<rparr>"
  from run sb obtain rs where rs: "sb reservations_query = Inr rs" "\<not> truthy (error rs)"
    by (auto simp: syncAdminDataToLocal_def andThen_def await_def throw_def
        split: sum.splits if_splits)
  from run sb rs obtain rows where rows: "js_or (data rs) (JArr []) = JArr rows"
    by (cases "js_or (data rs) (JArr [])")
      (auto simp: syncAdminDataToLocal_def andThen_def await_def throw_def Array_map_def)
  from run sb rs rows obtain entries st2 where
    m: "map_js (adapt_reservation w) rows ?st1 = (Inr entries, st2)"
    by (cases "map_js (adapt_reservation w) rows ?st1")
      (auto simp: syncAdminDataToLocal_def andThen_def await_def throw_def Array_map_def
        split: sum.splits)
  from map_js_adapt_reservation_ok [OF m]
  have st2: "st2 = ?st1\<lparr>clock_reads := clock_reads st + length rows\<rparr>" by simp
  from run sb rs rows m st2 have
    "result = JObj [(''reservations'', JArr entries)] \<and>
     st' = st\<lparr>requests := requests st @ [reservations_query],
                 clock_reads := clock_reads st + length rows,
                 localStorage := cache_after_set w (localStorage st) ''reservations'' (JArr entries),
                 events := events st @ [''sb:admin-synced'']\<rparr>"
    by (auto simp: syncAdminDataToLocal_def andThen_def await_def throw_def Array_map_def
        LS_set_eq fireSyncedEvent_def ret_def)
  with rs rows m st2 show ?thesis by auto
qed

lemma reservation_entry_fields:
  "field (reservation_entry w r now) ''id'' = field r ''id''"
  "field (reservation_entry w r now) ''name'' = field r ''name''"
  "field (reservation_entry w r now) ''date'' = field r ''date''"
  "field (reservation_entry w r now) ''phone'' =
     (if truthy (field r ''phone'') then field r ''phone'' else JStr [])"
  "field (reservation_entry w r now) ''notes'' =
     (if truthy (field r ''notes'') then field r ''notes'' else JStr [])"
  "field (reservation_entry w r now) ''table'' =
     (if truthy (field r ''table_no'') then field r ''table_no'' else JStr [])"
  "field (reservation_entry w r now) ''status'' =
     (if truthy (field r ''status'') then field r ''status'' else JStr ''new'')"
  "field (reservation_entry w r now) ''people'' =
     JNum (if ToNumber w (field r ''people'') = NaN \<or> ToNumber w (field r ''people'') = Fin 0
           then Fin 1 else ToNumber w (field r ''people''))"
  "field (reservation_entry w r now) ''duration'' =
     JNum (if ToNumber w (field r ''duration_minutes'') = NaN \<or>
              ToNumber w (field r ''duration_minutes'') = Fin 0
           then Fin 90 else ToNumber w (field r ''duration_minutes''))"
  "field (reservation_entry w r now) ''updatedAt'' = now"
  by (simp_all add: reservation_entry_def js_or_def)

lemma reservation_entry_names:
  "\<exists>kvs. reservation_entry w r now = JObj kvs \<and>
     map fst kvs = [''id'', ''name'', ''phone'', ''date'', ''people'', ''status'', ''notes'',
                    ''table'', ''duration'', ''updatedAt'']"
  by (simp add: reservation_entry_def)

lemma syncPublicCatalogToLocal_run:
  assumes sb: "supabase w = Some sb" and run: "syncPublicCatalogToLocal w st = (Inr result, st')"
  shows "\<exists>cats items rows.
      sb categories_query = Inr cats \<and> \<not> truthy (error cats) \<and>
      sb menu_items_query = Inr items \<and> \<not> truthy (error items) \<and>
      js_or (data items) (JArr []) = JArr rows \<and> (\<forall>r\<in>set rows. \<not> nullish r) \<and>
      result = JObj [(''categories'', js_or (data cats) (JArr [])),
                     (''items'', JArr (map (adapted_item w) rows))] \<and>
      st' = st\<lparr>requests := requests st @ [categories_query, menu_items_query],
                 localStorage :=
                   cache_after_set w
                     (cache_after_set w (localStorage st) ''categories'' (js_or (data cats) (JArr [])))
                     ''menuItemsVisible'' (JArr (map (adapted_item w) rows))\<rparr>"
proof -
  from run sb obtain cats where cats: "sb categories_query = Inr cats" "\<not> truthy (error cats)"
    by (auto simp: syncPublicCatalogToLocal_def andThen_def await_def throw_def
        split: sum.splits if_splits)
  from run sb cats obtain items where items: "sb menu_items_query = Inr items" "\<not> truthy (error items)"
    by (auto simp: syncPublicCatalogToLocal_def andThen_def await_def throw_def
        split: sum.splits if_splits)
  from run sb cats items obtain rows where rows: "js_or (data items) (JArr []) = JArr rows"
    by (cases "js_or (data items) (JArr [])")
      (auto simp: syncPublicCatalogToLocal_def andThen_def await_def throw_def Array_map_def)
  from run sb cats items rows have ok: "\<forall>r\<in>set rows. \<not> nullish r"
    by (auto simp: syncPublicCatalogToLocal_def andThen_def await_def throw_def Array_map_def
        map_js_adapt_item split: if_splits)
  from run sb cats items rows ok have
    "result = JObj [(''categories'', js_or (data cats) (JArr [])),
                     (''items'', JArr (map (adapted_item w) rows))] \<and>
      st' = st\<lparr>requests := requests st @ [categories_query, menu_items_query],
                 localStorage :=
                   cache_after_set w
                     (cache_after_set w (localStorage st) ''categories'' (js_or (data cats) (JArr [])))
                     ''menuItemsVisible'' (JArr (map (adapted_item w) rows))\<rparr>"
    by (auto simp: syncPublicCatalogToLocal_def andThen_def await_def throw_def Array_map_def
        map_js_adapt_item LS_set_eq ret_def)
  with cats items rows ok show ?thesis by auto
qed

lemma adapted_item_fields:
  "field (adapted_item w it) ''price'' =
     JNum (if ToNumber w (field it ''price'') = NaN then Fin 0 else ToNumber w (field it ''price''))"
  "field (adapted_item w it) ''rating_avg'' =
     JNum (if ToNumber w (field it ''rating_avg'') = NaN then Fin 0
           else ToNumber w (field it ''rating_avg''))"
  "field (adapted_item w it) ''rating_count'' =
     JNum (if ToNumber w (field it ''rating_count'') = NaN then Fin 0
           else ToNumber w (field it ''rating_count''))"
  "field (adapted_item w it) ''available'' = JBool (truthy (field it ''available''))"
  "field (adapted_item w it) ''fresh'' = JBool (truthy (field it ''fresh''))"
  "field (adapted_item w it) ''desc'' =
     (if nullish (field it ''desc'') then JStr [] else field it ''desc'')"
  "field (adapted_item w it) ''img'' =
     (if truthy (field it ''img'') then field it ''img'' else JStr [])"
  by (auto simp: adapted_item_def js_or_def js_coalesce_def)

subsection \<open>Create and delete\<close>

lemma LS_get_after_request:
  "fst (LS_get w k d st) = Inr v \<Longrightarrow>
     LS_get w k d (st\<lparr>requests := rs\<rparr>) = (Inr v, st\<lparr>requests := rs\<rparr>)"
  by (auto simp: LS_get_eq)

lemma createReservationSB_run:
  assumes "supabase w = Some sb" and "\<not> nullish payload"
    and "sb (Insert ''reservations'' [insert_row payload]) = Inr ins" and "\<not> truthy (error ins)"
    and "fst (LS_get w ''reservations'' (JArr []) st) = Inr (JArr old)"
  shows "createReservationSB w payload st =
     (Inr (JBool True),
      st\<lparr>requests := requests st @ [Insert ''reservations'' [insert_row payload]],
         clock_reads := Suc (Suc (clock_reads st)),
         localStorage :=
           cache_after_set w (localStorage st) ''reservations''
             (JArr (optimistic_entry w payload
                      (JNum (Fin (of_nat (clock w (clock_reads st)))))
                      (JStr (iso_string w (clock w (Suc (clock_reads st))))) # old)),
         events := events st @ [''sb:admin-synced'']\<rparr>)"
  using assms
  by (simp add: createReservationSB_def andThen_def await_def LS_get_after_request Date_now_def
      nowISO_def lift_def Array_unshift_def LS_set_eq fireSyncedEvent_def ret_def)

lemma optimistic_entry_fields:
  "field (optimistic_entry w payload t now) ''id'' = JStr (''tmp_'' @ ToString w t)"
  "field (optimistic_entry w payload t now) ''status'' = JStr ''new''"
  "field payload ''duration_minutes'' = JUndefined \<Longrightarrow>
     field (optimistic_entry w payload t now) ''duration'' = JNum (Fin 90)"
  "field (optimistic_entry w payload t now) ''updatedAt'' = now"
  by (simp_all add: optimistic_entry_def default_param_def js_or_def)

lemma filter_js_other_id:
  "\<forall>r\<in>set xs. \<not> nullish r \<Longrightarrow>
     filter_js (other_id w rid) xs =
       Inr (filter (\<lambda>r. ToString w (field r ''id'') \<noteq> ToString w rid) xs)"
  by (induction xs) (auto simp: other_id_def)

lemma deleteReservationSB_run:
  assumes "supabase w = Some sb"
    and "sb (Delete ''reservations'' [(''id'', rid)]) = Inr del" and "\<not> truthy (error del)"
    and "fst (LS_get w ''reservations'' (JArr []) st) = Inr (JArr old)"
    and "\<forall>r\<in>set old. \<not> nullish r"
  shows "deleteReservationSB w rid st =
     (Inr (JBool True),
      st\<lparr>requests := requests st @ [Delete ''reservations'' [(''id'', rid)]],
         localStorage :=
           cache_after_set w (localStorage st) ''reservations''
             (JArr (filter (\<lambda>r. ToString w (field r ''id'') \<noteq> ToString w rid) old)),
         events := events st @ [''sb:admin-synced'']\<rparr>)"
  using assms
  by (simp add: deleteReservationSB_def andThen_def await_def LS_get_after_request lift_def
      Array_filter_def filter_js_other_id LS_set_eq fireSyncedEvent_def ret_def)

subsection \<open>Object literals and the patch of an update\<close>

















subsection \<open>Running the samples\<close>

text \<open>The equations that run an operation on the sample host.\<close>

lemmas sample_run =
  sample_host_def granting_client_def empty_page_def cached_page_def sample_cached_def
  andThen_def await_def ret_def throw_def lift_def try_catch_def
  js_or_def js_coalesce_def nullish_def default_param_def
  LS_set_eq LS_get_eq fireSyncedEvent_def nowISO_def Date_now_def
  cache_after_set_def cache_text_def JSON_stringify_def JSON_parse_def

subsection \<open>The two admin checks and the guard\<close>

lemma isCurrentUserAdminRPC_run:
  "supabase w = Some sb \<Longrightarrow>
     isCurrentUserAdminRPC w uid st =
       (Inr (JBool (case sb (admin_check uid) of
                      Inl e \<Rightarrow> False
                    | Inr r \<Rightarrow> \<not> truthy (error r) \<and> truthy (data r))),
        st\<lparr>requests := requests st @ [admin_check uid]\<rparr>)"
  by (simp add: isCurrentUserAdminRPC_def try_catch_def andThen_def await_def ret_def
      split: sum.splits)

lemma probeAdminBySelect_run:
  "supabase w = Some sb \<Longrightarrow>
     probeAdminBySelect w st =
       (Inr (JBool (case sb probe_query of Inl e \<Rightarrow> False | Inr r \<Rightarrow> \<not> truthy (error r))),
        st\<lparr>requests := requests st @ [probe_query]\<rparr>)"
  by (simp add: probeAdminBySelect_def try_catch_def andThen_def await_def ret_def
      split: sum.splits)

lemma opt_prop_truthy:
  "truthy (opt_prop (opt_prop session ''user'') ''id'') \<Longrightarrow>
     field (field session ''user'') ''id'' = opt_prop (opt_prop session ''user'') ''id''"
  by (auto simp: opt_prop_def split: if_splits)

lemma requireAdminOrRedirect_run:
  assumes "supabase w = Some sb" and "sb GetSession = Inr res" and "\<not> nullish (data res)"
    and "uid = opt_prop (opt_prop (field (data res) ''session'') ''user'') ''id''"
    and "url = ToString w (default_param loginUrl (JStr ''login.html''))"
  shows "requireAdminOrRedirect w loginUrl st =
     (if \<not> truthy uid then
        (Inr (JBool False),
         st\<lparr>requests := requests st @ [GetSession], navigations := navigations st @ [url]\<rparr>)
      else if (case sb (admin_check uid) of
                 Inl e \<Rightarrow> False
               | Inr r \<Rightarrow> \<not> truthy (error r) \<and> truthy (data r)) then
        (Inr (JBool True), st\<lparr>requests := requests st @ [GetSession, admin_check uid]\<rparr>)
      else if (case sb probe_query of Inl e \<Rightarrow> False | Inr r \<Rightarrow> \<not> truthy (error r)) then
        (Inr (JBool True),
         st\<lparr>requests := requests st @ [GetSession, admin_check uid, probe_query]\<rparr>)
      else
        (Inr (JBool False),
         st\<lparr>requests := requests st @ [GetSession, admin_check uid, probe_query],
            navigations := navigations st @ [url]\<rparr>))"
  using assms opt_prop_truthy [of "field (data res) ''session''"]
  by (simp add: requireAdminOrRedirect_def Let_def andThen_def await_def lift_def read_prop_def
      redirect_def ret_def isCurrentUserAdminRPC_run probeAdminBySelect_run)

subsection \<open>What a throwing run leaves behind\<close>

lemma syncPublicCatalogToLocal_throw_frame:
  "syncPublicCatalogToLocal w st = (Inl e, st') \<Longrightarrow>
     localStorage st' = localStorage st \<and> events st' = events st"
  by (cases "supabase w")
    (auto simp: syncPublicCatalogToLocal_def andThen_def await_def throw_def ret_def
      Array_map_def map_js_adapt_item LS_set_eq
      split: sum.splits if_splits jsval.splits)

lemma syncAdminDataToLocal_throw_frame:
  assumes "syncAdminDataToLocal w st = (Inl e, st')"
  shows "localStorage st' = localStorage st \<and> events st' = events st"
proof (cases "supabase w")
  case None
  with assms show ?thesis by (simp add: syncAdminDataToLocal_def ret_def)
next
  case (Some sb)
  let ?st1 = "st\<lparr>requests := requests st @ [reservations_query]\<rparr>"
  show ?thesis
  proof (cases "sb reservations_query")
    case (Inl x)
    with assms Some show ?thesis
      by (auto simp: syncAdminDataToLocal_def andThen_def await_def)
  next
    case (Inr rs)
    show ?thesis
    proof (cases "truthy (error rs)")
      case True
      with assms Some Inr show ?thesis
        by (auto simp: syncAdminDataToLocal_def andThen_def await_def throw_def)
    next
      case False
      show ?thesis
      proof (cases "js_or (data rs) (JArr [])")
        case (JArr rows)
        obtain r st2 where m: "map_js (adapt_reservation w) rows ?st1 = (r, st2)"
          by (cases "map_js (adapt_reservation w) rows ?st1")
        from map_js_adapt_reservation_frame [OF m] have
          frame: "localStorage st2 = localStorage st" "events st2 = events st"
          by simp_all
        from assms Some Inr False JArr m frame show ?thesis
          by (cases r)
            (auto simp: syncAdminDataToLocal_def andThen_def await_def Array_map_def LS_set_eq
              fireSyncedEvent_def ret_def)
      qed (use assms Some Inr False in
          \<open>auto simp: syncAdminDataToLocal_def andThen_def await_def throw_def Array_map_def\<close>)
    qed
  qed
qed

lemma createReservationSB_throw_frame:
  "createReservationSB w payload st = (Inl e, st') \<Longrightarrow>
     localStorage st' = localStorage st \<and> events st' = events st"
  by (cases "supabase w")
    (auto simp: createReservationSB_def andThen_def await_def throw_def ret_def lift_def
      LS_get_eq LS_set_eq Date_now_def nowISO_def Array_unshift_def fireSyncedEvent_def
      split: sum.splits if_splits jsval.splits)

lemma updateReservationSB_throw_frame:
  "updateReservationSB w rid fs st = (Inl e, st') \<Longrightarrow>
     localStorage st' = localStorage st \<and> events st' = events st"
  by (cases "supabase w")
    (auto simp: updateReservationSB_def Let_def andThen_def await_def throw_def ret_def lift_def
      LS_get_eq LS_set_eq nowISO_def fireSyncedEvent_def
      split: sum.splits if_splits jsval.splits option.splits)

lemma deleteReservationSB_throw_frame:
  "deleteReservationSB w rid st = (Inl e, st') \<Longrightarrow>
     localStorage st' = localStorage st \<and> events st' = events st"
  by (cases "supabase w")
    (auto simp: deleteReservationSB_def andThen_def await_def throw_def ret_def lift_def
      LS_get_eq LS_set_eq fireSyncedEvent_def
      split: sum.splits if_splits)

section \<open>The claims\<close>

subsection \<open>The cache helpers\<close>

text \<open>
  Claim C8. For every key and default, \<open>LS.get\<close> never throws, and returns the default
  when the storage cannot be read, when the key is absent or when the stored text does not
  parse, also after a write that failed or was never made; \<open>LS.set\<close> never throws, and a
  refused write is swallowed, leaving the page as it was.
\<close>

theorem LS_never_throws:
  "(\<exists>v. LS_get w k d st = (Inr v, st)) \<and>
   (storage_denied w \<or> localStorage st k = None \<or>
      (\<exists>s e. localStorage st k = Some s \<and> JSON_parse w (JStr s) = Inl e)
    \<longrightarrow> LS_get w k d st = (Inr d, st)) \<and>
   (\<exists>st'. LS_set w k v st = (Inr JUndefined, st')) \<and>
   (storage_denied w \<or> quota_exceeded w (localStorage st) k (cache_text w v)
    \<longrightarrow> LS_set w k v st = (Inr JUndefined, st)) \<and>
   (localStorage st k = None \<and>
      (storage_denied w \<or> quota_exceeded w (localStorage st) k (cache_text w v))
    \<longrightarrow> LS_get w k d (snd (LS_set w k v st)) = (Inr d, st))"
  by (auto simp: LS_get_eq LS_set_eq cache_after_set_def JSON_parse_def js_coalesce_def nullish_def)

theorem LS_never_throws_witness:
  "quota_exceeded (sample_host None) (localStorage empty_page) ''full''
     (cache_text (sample_host None) (JArr [])) \<and>
   localStorage empty_page ''full'' = None \<and>
   LS_set (sample_host None) ''full'' (JArr []) empty_page = (Inr JUndefined, empty_page) \<and>
   LS_get (sample_host None) ''full'' (JArr [])
       (snd (LS_set (sample_host None) ''full'' (JArr []) empty_page))
     = (Inr (JArr []), empty_page)"
  using LS_never_throws [of "sample_host None" "''full''" "JArr []" empty_page "JArr []"]
  by (simp add: sample_host_def empty_page_def)

text \<open>
  Claim C10. When the stored text parses to null, \<open>LS.get\<close> returns the default and not
  null (so it does after \<open>LS.set(k, null)\<close>, which stores the text \<open>null\<close>); a stored
  false, 0 or empty string is returned as it is: only null and undefined fall back.
\<close>

theorem LS_get_falls_back_on_null_only:
  "(\<not> storage_denied w \<and> localStorage st k = Some s \<and> JSON_parse w (JStr s) = Inr v \<longrightarrow>
      (v = JNull \<longrightarrow> LS_get w k d st = (Inr d, st)) \<and>
      (v = JBool False \<or> v = JNum (Fin 0) \<or> v = JStr [] \<longrightarrow> LS_get w k d st = (Inr v, st)) \<and>
      LS_get w k d st = (Inr (if v = JNull \<or> v = JUndefined then d else v), st)) \<and>
   (\<not> storage_denied w \<and> \<not> quota_exceeded w (localStorage st) k ''null'' \<longrightarrow>
      localStorage (snd (LS_set w k JNull st)) k = Some ''null'' \<and>
      fst (LS_get w k d (snd (LS_set w k JNull st))) = Inr d)"
  by (auto simp: LS_get_eq LS_set_eq cache_after_set_def cache_text_def JSON_stringify_def
      JSON_parse_def js_coalesce_def nullish_def)

theorem LS_get_falls_back_on_null_only_witness:
  "LS_get (sample_host None) ''k'' (JStr ''dflt'') (empty_page\<lparr>localStorage := [''k'' \<mapsto> ''false'']\<rparr>)
     = (Inr (JBool False), empty_page\<lparr>localStorage := [''k'' \<mapsto> ''false'']\<rparr>) \<and>
   LS_get (sample_host None) ''k'' (JStr ''dflt'') (empty_page\<lparr>localStorage := [''k'' \<mapsto> ''null'']\<rparr>)
     = (Inr (JStr ''dflt''), empty_page\<lparr>localStorage := [''k'' \<mapsto> ''null'']\<rparr>) \<and>
   fst (LS_get (sample_host None) ''k'' (JStr ''dflt'')
          (snd (LS_set (sample_host None) ''k'' JNull empty_page)))
     = Inr (JStr ''dflt'')"
  using
    LS_get_falls_back_on_null_only [of "sample_host None"
      "empty_page\<lparr>localStorage := [''k'' \<mapsto> ''false'']\<rparr>" "''k''" "''false''" "JBool False" "JStr ''dflt''"]
    LS_get_falls_back_on_null_only [of "sample_host None"
      "empty_page\<lparr>localStorage := [''k'' \<mapsto> ''null'']\<rparr>" "''k''" "''null''" "JNull" "JStr ''dflt''"]
    LS_get_falls_back_on_null_only [of "sample_host None" "empty_page" "''k''" "''null''" "JNull" "JStr ''dflt''"]
  by (simp add: sample_host_def empty_page_def JSON_parse_def)

subsection \<open>No client configured\<close>

text \<open>
  Claim C2, as the code has it. Without a client each of the six operations leaves the page
  exactly as it was (no request, no cache write, no event, no navigation). The five data
  operations return undefined (\<open>createReservationSB\<close> once its payload could be
  destructured); \<open>requireAdminOrRedirect\<close> returns false.
\<close>

theorem no_client_is_inert:
  assumes "supabase w = None"
  shows "syncPublicCatalogToLocal w st = (Inr JUndefined, st) \<and>
         syncAdminDataToLocal w st = (Inr JUndefined, st) \<and>
         (\<not> nullish payload \<longrightarrow> createReservationSB w payload st = (Inr JUndefined, st)) \<and>
         updateReservationSB w rid fs st = (Inr JUndefined, st) \<and>
         deleteReservationSB w rid st = (Inr JUndefined, st) \<and>
         requireAdminOrRedirect w loginUrl st = (Inr (JBool False), st)"
  using assms
  by (simp add: syncPublicCatalogToLocal_def syncAdminDataToLocal_def createReservationSB_def
      updateReservationSB_def deleteReservationSB_def requireAdminOrRedirect_def ret_def)

theorem no_client_is_inert_witness:
  "supabase (sample_host None) = None \<and>
   syncPublicCatalogToLocal (sample_host None) empty_page = (Inr JUndefined, empty_page) \<and>
   syncAdminDataToLocal (sample_host None) empty_page = (Inr JUndefined, empty_page) \<and>
   \<not> nullish (JObj [(''name'', JStr ''A'')]) \<and>
   createReservationSB (sample_host None) (JObj [(''name'', JStr ''A'')]) empty_page
     = (Inr JUndefined, empty_page) \<and>
   updateReservationSB (sample_host None) (JNum (Fin 7)) (JObj []) empty_page
     = (Inr JUndefined, empty_page) \<and>
   deleteReservationSB (sample_host None) (JNum (Fin 7)) empty_page = (Inr JUndefined, empty_page) \<and>
   requireAdminOrRedirect (sample_host None) JUndefined empty_page = (Inr (JBool False), empty_page)"
  using no_client_is_inert [of "sample_host None" empty_page "JObj [(''name'', JStr ''A'')]"
      "JNum (Fin 7)" "JObj []" JUndefined]
  by (simp add: sample_host_def nullish_def)

text \<open>The claim as the specification words it, undefined from all six, fails for the
  guard: on a host without a client it returns false.\<close>

theorem requireAdmin_no_client_counterexample:
  "supabase (sample_host None) = None \<and>
   requireAdminOrRedirect (sample_host None) (JStr ''login.html'') empty_page
     = (Inr (JBool False), empty_page) \<and>
   requireAdminOrRedirect (sample_host None) (JStr ''login.html'') empty_page
     \<noteq> (Inr JUndefined, empty_page)"
  by (simp add: requireAdminOrRedirect_def sample_host_def ret_def default_param_def)

subsection \<open>Admin sync\<close>

text \<open>
  Claim C7. On every successful run of \<open>syncAdminDataToLocal\<close> the list written under
  \<open>reservations\<close>, which is also the one returned, has one entry for each row the server
  answered, in the same order, with exactly the cache field names: \<open>id\<close>, \<open>name\<close> and
  \<open>date\<close> are the row's, \<open>table\<close> and \<open>duration\<close> come from \<open>table_no\<close> and
  \<open>duration_minutes\<close>, \<open>people\<close> and \<open>duration\<close> are numbers defaulting to 1 and 90,
  \<open>status\<close> defaults to \<open>new\<close>, \<open>phone\<close>, \<open>notes\<close> and \<open>table\<close> to the empty
  string, and \<open>updatedAt\<close> is the clock as read for that row; the event is dispatched once.
\<close>

theorem syncAdminDataToLocal_caches_mapped_rows:
  assumes "supabase w = Some sb" and "syncAdminDataToLocal w st = (Inr result, st')"
  shows "\<exists>rs rows entries.
      sb reservations_query = Inr rs \<and> js_or (data rs) (JArr []) = JArr rows \<and>
      result = JObj [(''reservations'', JArr entries)] \<and>
      localStorage st' = cache_after_set w (localStorage st) ''reservations'' (JArr entries) \<and>
      events st' = events st @ [''sb:admin-synced''] \<and>
      length entries = length rows \<and>
      (\<forall>j<length rows.
         (\<exists>kvs. entries ! j = JObj kvs \<and>
            map fst kvs = [''id'', ''name'', ''phone'', ''date'', ''people'', ''status'', ''notes'',
                           ''table'', ''duration'', ''updatedAt'']) \<and>
         field (entries ! j) ''id'' = field (rows ! j) ''id'' \<and>
         field (entries ! j) ''name'' = field (rows ! j) ''name'' \<and>
         field (entries ! j) ''date'' = field (rows ! j) ''date'' \<and>
         field (entries ! j) ''phone'' =
           (if truthy (field (rows ! j) ''phone'') then field (rows ! j) ''phone'' else JStr []) \<and>
         field (entries ! j) ''notes'' =
           (if truthy (field (rows ! j) ''notes'') then field (rows ! j) ''notes'' else JStr []) \<and>
         field (entries ! j) ''table'' =
           (if truthy (field (rows ! j) ''table_no'') then field (rows ! j) ''table_no'' else JStr []) \<and>
         field (entries ! j) ''status'' =
           (if truthy (field (rows ! j) ''status'') then field (rows ! j) ''status'' else JStr ''new'') \<and>
         field (entries ! j) ''people'' =
           JNum (if ToNumber w (field (rows ! j) ''people'') = NaN \<or>
                    ToNumber w (field (rows ! j) ''people'') = Fin 0
                 then Fin 1 else ToNumber w (field (rows ! j) ''people'')) \<and>
         field (entries ! j) ''duration'' =
           JNum (if ToNumber w (field (rows ! j) ''duration_minutes'') = NaN \<or>
                    ToNumber w (field (rows ! j) ''duration_minutes'') = Fin 0
                 then Fin 90 else ToNumber w (field (rows ! j) ''duration_minutes'')) \<and>
         field (entries ! j) ''updatedAt'' = JStr (iso_string w (clock w (clock_reads st + j))))"
proof -
  from syncAdminDataToLocal_run [OF assms] obtain rs rows entries where
    rs: "sb reservations_query = Inr rs" "js_or (data rs) (JArr []) = JArr rows" and
    m: "map_js (adapt_reservation w) rows (st\<lparr>requests := requests st @ [reservations_query]\<rparr>)
        = (Inr entries, st\<lparr>requests := requests st @ [reservations_query],
                             clock_reads := clock_reads st + length rows\<rparr>)" and
    res: "result = JObj [(''reservations'', JArr entries)]" and
    st': "st' = st\<lparr>requests := requests st @ [reservations_query],
                 clock_reads := clock_reads st + length rows,
                 localStorage := cache_after_set w (localStorage st) ''reservations'' (JArr entries),
                 events := events st @ [''sb:admin-synced'']\<rparr>"
    by blast
  from map_js_adapt_reservation_ok [OF m] have
    len: "length entries = length rows" and
    each: "\<And>j. j < length rows \<Longrightarrow>
       entries ! j = reservation_entry w (rows ! j) (JStr (iso_string w (clock w (clock_reads st + j))))"
    by simp_all
  show ?thesis
    apply (rule exI [of _ rs], rule exI [of _ rows], rule exI [of _ entries])
    using rs res st' len
    by (simp add: each reservation_entry_fields reservation_entry_names)
qed

theorem syncAdminDataToLocal_caches_mapped_rows_witness:
  "supabase (sample_host (Some granting_client)) = Some granting_client \<and>
   syncAdminDataToLocal (sample_host (Some granting_client)) empty_page =
     (Inr (JObj [(''reservations'', JArr
        [JObj [(''id'', JNum (Fin 7)), (''name'', JStr ''A''), (''phone'', JStr []),
               (''date'', JStr ''2024-01-01T10:00:00Z''), (''people'', JNum (Fin (25 / 2))),
               (''status'', JStr ''confirmed''), (''notes'', JStr []), (''table'', JStr ''T4''),
               (''duration'', JNum (Fin 90)), (''updatedAt'', JStr ''2023-11-14T22:13:20.000Z'')],
         JObj [(''id'', JNum (Fin 8)), (''name'', JStr ''B''), (''phone'', JStr []),
               (''date'', JUndefined), (''people'', JNum (Fin 1)),
               (''status'', JStr ''new''), (''notes'', JStr []), (''table'', JStr []),
               (''duration'', JNum (Fin 90)), (''updatedAt'', JStr ''2023-11-14T22:13:20.001Z'')]])]),
      \<lparr>localStorage = [''reservations'' \<mapsto> ''[]''], events = [''sb:admin-synced''],
       navigations = [], requests = [reservations_query], clock_reads = 2\<rparr>)"
proof -
  let ?w = "sample_host (Some granting_client)"
  have sb: "supabase ?w = Some granting_client"
    by (simp add: sample_host_def)
  have run: "syncAdminDataToLocal ?w empty_page =
     (Inr (JObj [(''reservations'', JArr
        [JObj [(''id'', JNum (Fin 7)), (''name'', JStr ''A''), (''phone'', JStr []),
               (''date'', JStr ''2024-01-01T10:00:00Z''), (''people'', JNum (Fin (25 / 2))),
               (''status'', JStr ''confirmed''), (''notes'', JStr []), (''table'', JStr ''T4''),
               (''duration'', JNum (Fin 90)), (''updatedAt'', JStr ''2023-11-14T22:13:20.000Z'')],
         JObj [(''id'', JNum (Fin 8)), (''name'', JStr ''B''), (''phone'', JStr []),
               (''date'', JUndefined), (''people'', JNum (Fin 1)),
               (''status'', JStr ''new''), (''notes'', JStr []), (''table'', JStr []),
               (''duration'', JNum (Fin 90)), (''updatedAt'', JStr ''2023-11-14T22:13:20.001Z'')]])]),
      \<lparr>localStorage = [''reservations'' \<mapsto> ''[]''], events = [''sb:admin-synced''],
       navigations = [], requests = [reservations_query], clock_reads = 2\<rparr>)"
    by (simp add: syncAdminDataToLocal_def sample_host_def granting_client_def empty_page_def
        reservations_query_def andThen_def await_def Array_map_def js_or_def adapt_reservation_step
        nullish_def reservation_entry_def ret_def LS_set_eq fireSyncedEvent_def
        cache_after_set_def cache_text_def JSON_stringify_def)
  from syncAdminDataToLocal_caches_mapped_rows [OF sb run] show ?thesis
    using sb run by simp
qed

subsection \<open>Public catalog\<close>

text \<open>
  Claim C3. On every successful run of \<open>syncPublicCatalogToLocal\<close> the items returned,
  which are also the list written under \<open>menuItemsVisible\<close>, are the rows answered to
  the one request on \<open>menu_items\<close>, filtered by \<open>available = true\<close>, one item for
  each row: \<open>price\<close>, \<open>rating_avg\<close> and \<open>rating_count\<close> are numbers, 0 where the
  row's value does not convert to a number (a missing value does not); \<open>available\<close> and
  \<open>fresh\<close> are booleans; a missing \<open>desc\<close> or \<open>img\<close> is the empty string.
\<close>

theorem syncPublicCatalogToLocal_normalises_items:
  assumes "supabase w = Some sb" and "syncPublicCatalogToLocal w st = (Inr result, st')"
  shows "\<exists>cats items rows adapted.
      sb categories_query = Inr cats \<and> sb menu_items_query = Inr items \<and>
      (\<exists>cols ob n. menu_items_query = Select ''menu_items'' cols [(''available'', JBool True)] ob n) \<and>
      js_or (data items) (JArr []) = JArr rows \<and>
      field result ''items'' = JArr adapted \<and>
      localStorage st' =
        cache_after_set w
          (cache_after_set w (localStorage st) ''categories'' (js_or (data cats) (JArr [])))
          ''menuItemsVisible'' (JArr adapted) \<and>
      length adapted = length rows \<and>
      (\<forall>j<length rows.
         (\<forall>k\<in>{''price'', ''rating_avg'', ''rating_count''}.
            field (adapted ! j) k =
              JNum (if ToNumber w (field (rows ! j) k) = NaN then Fin 0
                    else ToNumber w (field (rows ! j) k))) \<and>
         (\<forall>k\<in>{''available'', ''fresh''}.
            field (adapted ! j) k = JBool (truthy (field (rows ! j) k))) \<and>
         field (adapted ! j) ''desc'' =
           (if nullish (field (rows ! j) ''desc'') then JStr [] else field (rows ! j) ''desc'') \<and>
         field (adapted ! j) ''img'' =
           (if truthy (field (rows ! j) ''img'') then field (rows ! j) ''img'' else JStr []))"
proof -
  from syncPublicCatalogToLocal_run [OF assms] obtain cats items rows where
    q: "sb categories_query = Inr cats" "sb menu_items_query = Inr items"
       "js_or (data items) (JArr []) = JArr rows" and
    res: "result = JObj [(''categories'', js_or (data cats) (JArr [])),
                     (''items'', JArr (map (adapted_item w) rows))]" and
    st': "st' = st\<lparr>requests := requests st @ [categories_query, menu_items_query],
                 localStorage :=
                   cache_after_set w
                     (cache_after_set w (localStorage st) ''categories'' (js_or (data cats) (JArr [])))
                     ''menuItemsVisible'' (JArr (map (adapted_item w) rows))\<rparr>"
    by blast
  show ?thesis
    apply (rule exI [of _ cats], rule exI [of _ items], rule exI [of _ rows],
        rule exI [of _ "map (adapted_item w) rows"])
    using q res st'
    by (simp add: adapted_item_fields menu_items_query_def)
qed

theorem syncPublicCatalogToLocal_normalises_items_witness:
  "supabase (sample_host (Some granting_client)) = Some granting_client \<and>
   syncPublicCatalogToLocal (sample_host (Some granting_client)) empty_page =
     (Inr (JObj
        [(''categories'',
            JArr [JObj [(''id'', JNum (Fin 7)), (''name'', JStr ''Mains''), (''sort'', JNum (Fin 1))]]),
         (''items'', JArr
            [JObj [(''id'', JNum (Fin 7)), (''name'', JStr ''Soup''), (''desc'', JStr []),
                   (''price'', JNum (Fin (25 / 2))), (''img'', JStr []), (''cat_id'', JNull),
                   (''available'', JBool True), (''fresh'', JBool False),
                   (''rating_avg'', JNum (Fin 0)), (''rating_count'', JNum (Fin 0)),
                   (''created_at'', JUndefined)],
             JObj [(''id'', JNum (Fin 8)), (''name'', JStr ''Tea''), (''desc'', JStr ''hot''),
                   (''price'', JNum (Fin 0)), (''img'', JStr ''tea.png''), (''cat_id'', JNull),
                   (''available'', JBool True), (''fresh'', JBool True),
                   (''rating_avg'', JNum (Fin 0)), (''rating_count'', JNum (Fin 0)),
                   (''created_at'', JUndefined)]])]),
      \<lparr>localStorage = [''categories'' \<mapsto> ''[]'', ''menuItemsVisible'' \<mapsto> ''[]''], events = [],
       navigations = [], requests = [categories_query, menu_items_query], clock_reads = 0\<rparr>)"
proof -
  let ?w = "sample_host (Some granting_client)"
  have sb: "supabase ?w = Some granting_client"
    by (simp add: sample_host_def)
  have run: "syncPublicCatalogToLocal ?w empty_page =
     (Inr (JObj
        [(''categories'',
            JArr [JObj [(''id'', JNum (Fin 7)), (''name'', JStr ''Mains''), (''sort'', JNum (Fin 1))]]),
         (''items'', JArr
            [JObj [(''id'', JNum (Fin 7)), (''name'', JStr ''Soup''), (''desc'', JStr []),
                   (''price'', JNum (Fin (25 / 2))), (''img'', JStr []), (''cat_id'', JNull),
                   (''available'', JBool True), (''fresh'', JBool False),
                   (''rating_avg'', JNum (Fin 0)), (''rating_count'', JNum (Fin 0)),
                   (''created_at'', JUndefined)],
             JObj [(''id'', JNum (Fin 8)), (''name'', JStr ''Tea''), (''desc'', JStr ''hot''),
                   (''price'', JNum (Fin 0)), (''img'', JStr ''tea.png''), (''cat_id'', JNull),
                   (''available'', JBool True), (''fresh'', JBool True),
                   (''rating_avg'', JNum (Fin 0)), (''rating_count'', JNum (Fin 0)),
                   (''created_at'', JUndefined)]])]),
      \<lparr>localStorage = [''categories'' \<mapsto> ''[]'', ''menuItemsVisible'' \<mapsto> ''[]''], events = [],
       navigations = [], requests = [categories_query, menu_items_query], clock_reads = 0\<rparr>)"
    by (simp add: syncPublicCatalogToLocal_def sample_run categories_query_def menu_items_query_def
        Array_map_def adapt_item_def adapted_item_def)
  from syncPublicCatalogToLocal_normalises_items [OF sb run] show ?thesis
    using sb run by simp
qed

subsection \<open>Reservations\<close>

text \<open>
  Claim C6. When the insert succeeds and the cache holds a list (or nothing that parses),
  \<open>createReservationSB\<close> returns true, writes the list with one new entry in front of
  all the entries it read, and dispatches the event once; the new entry's \<open>id\<close> is
  \<open>tmp_\<close> followed by the clock's time value, its \<open>status\<close> is \<open>new\<close>, and its
  \<open>duration\<close> is 90 when the payload has no \<open>duration_minutes\<close>.
\<close>

theorem createReservationSB_prepends_optimistic_entry:
  assumes "supabase w = Some sb" and "\<not> nullish payload"
    and "sb (Insert ''reservations'' [insert_row payload]) = Inr ins" and "\<not> truthy (error ins)"
    and "fst (LS_get w ''reservations'' (JArr []) st) = Inr (JArr old)"
  shows "\<exists>entry st'.
      createReservationSB w payload st = (Inr (JBool True), st') \<and>
      localStorage st' = cache_after_set w (localStorage st) ''reservations'' (JArr (entry # old)) \<and>
      events st' = events st @ [''sb:admin-synced''] \<and>
      field entry ''id'' =
        JStr (''tmp_'' @ number_to_string w (Fin (of_nat (clock w (clock_reads st))))) \<and>
      field entry ''status'' = JStr ''new'' \<and>
      (field payload ''duration_minutes'' = JUndefined \<longrightarrow> field entry ''duration'' = JNum (Fin 90))"
proof -
  let ?entry = "optimistic_entry w payload (JNum (Fin (of_nat (clock w (clock_reads st)))))
      (JStr (iso_string w (clock w (Suc (clock_reads st)))))"
  from createReservationSB_run [OF assms] show ?thesis
    by (intro exI [of _ ?entry]) (simp add: optimistic_entry_fields)
qed

theorem createReservationSB_prepends_optimistic_entry_witness:
  "supabase (sample_host (Some granting_client)) = Some granting_client \<and>
   \<not> nullish (JObj [(''name'', JStr ''A''), (''phone'', JStr ''1''),
                     (''iso'', JStr ''2024-01-01T10:00:00Z''), (''people'', JNum (Fin 2))]) \<and>
   granting_client (Insert ''reservations''
       [insert_row (JObj [(''name'', JStr ''A''), (''phone'', JStr ''1''),
                          (''iso'', JStr ''2024-01-01T10:00:00Z''), (''people'', JNum (Fin 2))])])
     = Inr \<lparr>data = JNull, error = JNull\<rparr> \<and>
   fst (LS_get (sample_host (Some granting_client)) ''reservations'' (JArr []) cached_page)
     = Inr (JArr sample_cached) \<and>
   createReservationSB (sample_host (Some granting_client))
       (JObj [(''name'', JStr ''A''), (''phone'', JStr ''1''),
              (''iso'', JStr ''2024-01-01T10:00:00Z''), (''people'', JNum (Fin 2))]) cached_page
     = (Inr (JBool True),
        \<lparr>localStorage =
           [''reservations'' \<mapsto>
              cache_text (sample_host (Some granting_client))
                (JArr (JObj [(''id'', JStr ''tmp_1700000000000''), (''name'', JStr ''A''),
                             (''phone'', JStr ''1''), (''date'', JStr ''2024-01-01T10:00:00Z''),
                             (''people'', JNum (Fin 2)), (''status'', JStr ''new''),
                             (''notes'', JStr []), (''table'', JStr []),
                             (''duration'', JNum (Fin 90)),
                             (''updatedAt'', JStr ''2023-11-14T22:13:20.001Z'')] # sample_cached))],
         events = [''sb:admin-synced''], navigations = [],
         requests = [Insert ''reservations''
           [insert_row (JObj [(''name'', JStr ''A''), (''phone'', JStr ''1''),
                              (''iso'', JStr ''2024-01-01T10:00:00Z''), (''people'', JNum (Fin 2))])]],
         clock_reads = 2\<rparr>)"
proof -
  let ?w = "sample_host (Some granting_client)"
  let ?payload = "JObj [(''name'', JStr ''A''), (''phone'', JStr ''1''),
                     (''iso'', JStr ''2024-01-01T10:00:00Z''), (''people'', JNum (Fin 2))]"
  have sb: "supabase ?w = Some granting_client"
    by (simp add: sample_host_def)
  have payload: "\<not> nullish ?payload"
    by (simp add: nullish_def)
  have ins: "granting_client (Insert ''reservations'' [insert_row ?payload])
      = Inr \<lparr>data = JNull, error = JNull\<rparr>"
    by (simp add: granting_client_def)
  have ok: "\<not> truthy (error \<lparr>data = JNull, error = JNull\<rparr>)"
    by simp
  have old: "fst (LS_get ?w ''reservations'' (JArr []) cached_page) = Inr (JArr sample_cached)"
    by (simp add: sample_run)
  from createReservationSB_prepends_optimistic_entry [OF sb payload ins ok old]
  show ?thesis
    using sb payload ins old
    by (simp add: createReservationSB_run [OF sb payload ins ok old] optimistic_entry_def)
      (simp add: sample_run)
qed

text \<open>
  Claim C5. When the delete succeeds and the cache holds a list of entries,
  \<open>deleteReservationSB\<close> returns true, writes the list without the entries whose
  \<open>id\<close>, as a string, equals the argument as a string, the others in their order, and
  dispatches the event once.
\<close>

theorem deleteReservationSB_removes_matching:
  assumes "supabase w = Some sb"
    and "sb (Delete ''reservations'' [(''id'', rid)]) = Inr del" and "\<not> truthy (error del)"
    and "fst (LS_get w ''reservations'' (JArr []) st) = Inr (JArr old)"
    and "\<forall>r\<in>set old. \<not> nullish r"
  shows "\<exists>st'.
      deleteReservationSB w rid st = (Inr (JBool True), st') \<and>
      localStorage st' =
        cache_after_set w (localStorage st) ''reservations''
          (JArr (filter (\<lambda>r. ToString w (field r ''id'') \<noteq> ToString w rid) old)) \<and>
      events st' = events st @ [''sb:admin-synced'']"
  using deleteReservationSB_run [OF assms]
  by simp

theorem deleteReservationSB_removes_matching_witness:
  "supabase (sample_host (Some granting_client)) = Some granting_client \<and>
   granting_client (Delete ''reservations'' [(''id'', JStr ''7'')])
     = Inr \<lparr>data = JNull, error = JNull\<rparr> \<and>
   fst (LS_get (sample_host (Some granting_client)) ''reservations'' (JArr []) cached_page)
     = Inr (JArr sample_cached) \<and>
   list_all (\<lambda>r. \<not> nullish r) sample_cached \<and>
   deleteReservationSB (sample_host (Some granting_client)) (JStr ''7'') cached_page
     = (Inr (JBool True),
        \<lparr>localStorage =
           [''reservations'' \<mapsto>
              cache_text (sample_host (Some granting_client))
                (JArr [JObj [(''id'', JStr ''8''), (''name'', JStr ''B''), (''status'', JStr ''new'')]])],
         events = [''sb:admin-synced''], navigations = [],
         requests = [Delete ''reservations'' [(''id'', JStr ''7'')]],
         clock_reads = 0\<rparr>)"
proof -
  let ?w = "sample_host (Some granting_client)"
  have sb: "supabase ?w = Some granting_client"
    by (simp add: sample_host_def)
  have del: "granting_client (Delete ''reservations'' [(''id'', JStr ''7'')])
      = Inr \<lparr>data = JNull, error = JNull\<rparr>"
    by (simp add: granting_client_def)
  have ok: "\<not> truthy (error \<lparr>data = JNull, error = JNull\<rparr>)"
    by simp
  have old: "fst (LS_get ?w ''reservations'' (JArr []) cached_page) = Inr (JArr sample_cached)"
    by (simp add: sample_run)
  have entries: "\<forall>r\<in>set sample_cached. \<not> nullish r"
    by (simp add: sample_cached_def nullish_def)
  from deleteReservationSB_removes_matching [OF sb del ok old entries]
  show ?thesis
    using sb del old entries
    by (simp add: deleteReservationSB_run [OF sb del ok old entries] list_all_iff)
      (simp add: sample_run)
qed




subsection \<open>Admin guard\<close>

text \<open>
  Claim C1. With a client whose \<open>getSession\<close> answers, \<open>requireAdminOrRedirect\<close>
  \<^item> redirects to the login URL and returns false when the session has no user id
    (no session at all is the case \<open>session = null\<close>);
  \<^item> returns true, with no redirect and without sending the probe, when the admin check
    answers without error and with a truthy result;
  \<^item> returns true, with no redirect, when the admin check rejects, reports an error or
    answers falsy, and the probe answers without error;
  \<^item> redirects and returns false when neither check succeeds.
  Here \<open>uid\<close> is \<open>session?.user?.id\<close> and \<open>url\<close> the string of the login URL,
  \<open>login.html\<close> when no argument is given.
\<close>

theorem requireAdminOrRedirect_decides:
  assumes "supabase w = Some sb" and "sb GetSession = Inr res" and "\<not> nullish (data res)"
    and "uid = opt_prop (opt_prop (field (data res) ''session'') ''user'') ''id''"
    and "url = ToString w (default_param loginUrl (JStr ''login.html''))"
  shows
    "(\<not> truthy uid \<longrightarrow>
        requireAdminOrRedirect w loginUrl st =
          (Inr (JBool False),
           st\<lparr>requests := requests st @ [GetSession],
              navigations := navigations st @ [url]\<rparr>)) \<and>
     (truthy uid \<and>
        (\<exists>r. sb (admin_check uid) = Inr r \<and> \<not> truthy (error r) \<and> truthy (data r)) \<longrightarrow>
        requireAdminOrRedirect w loginUrl st =
          (Inr (JBool True), st\<lparr>requests := requests st @ [GetSession, admin_check uid]\<rparr>)) \<and>
     (truthy uid \<and>
        \<not> (\<exists>r. sb (admin_check uid) = Inr r \<and> \<not> truthy (error r) \<and> truthy (data r)) \<and>
        (\<exists>p. sb probe_query = Inr p \<and> \<not> truthy (error p)) \<longrightarrow>
        requireAdminOrRedirect w loginUrl st =
          (Inr (JBool True),
           st\<lparr>requests := requests st @ [GetSession, admin_check uid, probe_query]\<rparr>)) \<and>
     (truthy uid \<and>
        \<not> (\<exists>r. sb (admin_check uid) = Inr r \<and> \<not> truthy (error r) \<and> truthy (data r)) \<and>
        \<not> (\<exists>p. sb probe_query = Inr p \<and> \<not> truthy (error p)) \<longrightarrow>
        requireAdminOrRedirect w loginUrl st =
          (Inr (JBool False),
           st\<lparr>requests := requests st @ [GetSession, admin_check uid, probe_query],
              navigations := navigations st @ [url]\<rparr>))"
proof -
  define affirmed where
    "affirmed = (\<exists>r. sb (admin_check uid) = Inr r \<and> \<not> truthy (error r) \<and> truthy (data r))"
  define probed where "probed = (\<exists>p. sb probe_query = Inr p \<and> \<not> truthy (error p))"
  have rpc: "(case sb (admin_check uid) of
                 Inl e \<Rightarrow> False
               | Inr r \<Rightarrow> \<not> truthy (error r) \<and> truthy (data r)) = affirmed"
    unfolding affirmed_def by (cases "sb (admin_check uid)") simp_all
  have probe: "(case sb probe_query of Inl e \<Rightarrow> False | Inr r \<Rightarrow> \<not> truthy (error r)) = probed"
    unfolding probed_def by (cases "sb probe_query") simp_all
  show ?thesis
    unfolding requireAdminOrRedirect_run [OF assms] rpc probe
      affirmed_def [symmetric] probed_def [symmetric]
    by (cases affirmed; cases probed) simp_all
qed

theorem requireAdminOrRedirect_decides_witness:
  "requireAdminOrRedirect
       (sample_host (Some (guard_client JNull (Inl TypeError) (Inl TypeError)))) JUndefined empty_page
     = (Inr (JBool False),
        empty_page\<lparr>requests := [GetSession], navigations := [''login.html'']\<rparr>) \<and>
   requireAdminOrRedirect
       (sample_host (Some (guard_client
          (JObj [(''user'', JObj [(''id'', JStr ''u1'')])])
          (Inr \<lparr>data = JBool True, error = JNull\<rparr>) (Inl TypeError))))
       (JStr ''/login'') empty_page
     = (Inr (JBool True),
        empty_page\<lparr>requests := [GetSession, admin_check (JStr ''u1'')]\<rparr>) \<and>
   requireAdminOrRedirect
       (sample_host (Some (guard_client
          (JObj [(''user'', JObj [(''id'', JStr ''u1'')])])
          (Inl (Thrown (JStr ''no such function'')))
          (Inr \<lparr>data = JArr [], error = JNull\<rparr>))))
       (JStr ''/login'') empty_page
     = (Inr (JBool True),
        empty_page\<lparr>requests := [GetSession, admin_check (JStr ''u1''), probe_query]\<rparr>) \<and>
   requireAdminOrRedirect
       (sample_host (Some (guard_client
          (JObj [(''user'', JObj [(''id'', JStr ''u1'')])])
          (Inr \<lparr>data = JBool False, error = JNull\<rparr>)
          (Inr \<lparr>data = JNull, error = JStr ''denied''\<rparr>))))
       (JStr ''/login'') empty_page
     = (Inr (JBool False),
        empty_page\<lparr>requests := [GetSession, admin_check (JStr ''u1''), probe_query],
                     navigations := [''/login'']\<rparr>)"
proof -
  let ?user = "JObj [(''user'', JObj [(''id'', JStr ''u1'')])]"
  let ?c1 = "guard_client JNull (Inl TypeError) (Inl TypeError)"
  let ?c2 = "guard_client ?user (Inr \<lparr>data = JBool True, error = JNull\<rparr>) (Inl TypeError)"
  let ?c3 = "guard_client ?user (Inl (Thrown (JStr ''no such function'')))
      (Inr \<lparr>data = JArr [], error = JNull\<rparr>)"
  let ?c4 = "guard_client ?user (Inr \<lparr>data = JBool False, error = JNull\<rparr>)
      (Inr \<lparr>data = JNull, error = JStr ''denied''\<rparr>)"
  note facts = sample_host_def guard_client_def empty_page_def nullish_def opt_prop_def
    default_param_def admin_check_def probe_query_def
  from
    requireAdminOrRedirect_decides [of "sample_host (Some ?c1)" ?c1
      "\<lparr>data = JObj [(''session'', JNull)], error = JNull\<rparr>" JUndefined "''login.html''"
      JUndefined empty_page]
    requireAdminOrRedirect_decides [of "sample_host (Some ?c2)" ?c2
      "\<lparr>data = JObj [(''session'', ?user)], error = JNull\<rparr>" "JStr ''u1''" "''/login''"
      "JStr ''/login''" empty_page]
    requireAdminOrRedirect_decides [of "sample_host (Some ?c3)" ?c3
      "\<lparr>data = JObj [(''session'', ?user)], error = JNull\<rparr>" "JStr ''u1''" "''/login''"
      "JStr ''/login''" empty_page]
    requireAdminOrRedirect_decides [of "sample_host (Some ?c4)" ?c4
      "\<lparr>data = JObj [(''session'', ?user)], error = JNull\<rparr>" "JStr ''u1''" "''/login''"
      "JStr ''/login''" empty_page]
  show ?thesis
    by (simp add: facts)
qed

subsection \<open>Throws come before every cache write\<close>

text \<open>
  Claim C9. Whenever one of \<open>syncPublicCatalogToLocal\<close>, \<open>syncAdminDataToLocal\<close>,
  \<open>createReservationSB\<close>, \<open>updateReservationSB\<close> and \<open>deleteReservationSB\<close> throws,
  for a backend error or for any other reason, the storage is exactly as before the call
  and no event has been dispatched.
\<close>

theorem throw_leaves_cache_and_events:
  "(syncPublicCatalogToLocal w st = (Inl e, st') \<longrightarrow>
      localStorage st' = localStorage st \<and> events st' = events st) \<and>
   (syncAdminDataToLocal w st = (Inl e, st') \<longrightarrow>
      localStorage st' = localStorage st \<and> events st' = events st) \<and>
   (createReservationSB w payload st = (Inl e, st') \<longrightarrow>
      localStorage st' = localStorage st \<and> events st' = events st) \<and>
   (updateReservationSB w rid fs st = (Inl e, st') \<longrightarrow>
      localStorage st' = localStorage st \<and> events st' = events st) \<and>
   (deleteReservationSB w rid st = (Inl e, st') \<longrightarrow>
      localStorage st' = localStorage st \<and> events st' = events st)"
  using syncPublicCatalogToLocal_throw_frame [of w st e st']
    syncAdminDataToLocal_throw_frame [of w st e st']
    createReservationSB_throw_frame [of w payload st e st']
    updateReservationSB_throw_frame [of w rid fs st e st']
    deleteReservationSB_throw_frame [of w rid st e st']
  by blast

theorem throw_leaves_cache_and_events_witness:
  "syncPublicCatalogToLocal (sample_host (Some refusing_client)) cached_page =
     (Inl (Thrown (JObj [(''message'', JStr ''permission denied'')])),
      cached_page\<lparr>requests := [categories_query]\<rparr>) \<and>
   syncAdminDataToLocal (sample_host (Some refusing_client)) cached_page =
     (Inl (Thrown (JObj [(''message'', JStr ''permission denied'')])),
      cached_page\<lparr>requests := [reservations_query]\<rparr>) \<and>
   createReservationSB (sample_host (Some refusing_client)) (JObj [(''name'', JStr ''A'')]) cached_page =
     (Inl (Thrown (JObj [(''message'', JStr ''permission denied'')])),
      cached_page\<lparr>requests := [Insert ''reservations'' [insert_row (JObj [(''name'', JStr ''A'')])]]\<rparr>) \<and>
   updateReservationSB (sample_host (Some refusing_client)) (JNum (Fin 7)) (JObj []) cached_page =
     (Inl (Thrown (JObj [(''message'', JStr ''permission denied'')])),
      cached_page\<lparr>requests :=
        [UpdateOne ''reservations'' (JObj []) [(''id'', JNum (Fin 7))] reservations_columns]\<rparr>) \<and>
   deleteReservationSB (sample_host (Some refusing_client)) (JNum (Fin 7)) cached_page =
     (Inl (Thrown (JObj [(''message'', JStr ''permission denied'')])),
      cached_page\<lparr>requests := [Delete ''reservations'' [(''id'', JNum (Fin 7))]]\<rparr>) \<and>
   localStorage (cached_page\<lparr>requests := [categories_query]\<rparr>) = localStorage cached_page \<and>
   events (cached_page\<lparr>requests := [categories_query]\<rparr>) = events cached_page"
proof -
  let ?w = "sample_host (Some refusing_client)"
  let ?e = "Thrown (JObj [(''message'', JStr ''permission denied'')])"
  have public: "syncPublicCatalogToLocal ?w cached_page =
      (Inl ?e, cached_page\<lparr>requests := [categories_query]\<rparr>)"
    by (simp add: syncPublicCatalogToLocal_def refusing_client_def sample_run)
  have admin: "syncAdminDataToLocal ?w cached_page =
      (Inl ?e, cached_page\<lparr>requests := [reservations_query]\<rparr>)"
    by (simp add: syncAdminDataToLocal_def refusing_client_def sample_run)
  have create: "createReservationSB ?w (JObj [(''name'', JStr ''A'')]) cached_page =
      (Inl ?e, cached_page\<lparr>requests :=
         [Insert ''reservations'' [insert_row (JObj [(''name'', JStr ''A'')])]]\<rparr>)"
    by (simp add: createReservationSB_def refusing_client_def sample_run)
  have update: "updateReservationSB ?w (JNum (Fin 7)) (JObj []) cached_page =
      (Inl ?e, cached_page\<lparr>requests :=
         [UpdateOne ''reservations'' (JObj []) [(''id'', JNum (Fin 7))] reservations_columns]\<rparr>)"
    by (simp add: updateReservationSB_def Let_def refusing_client_def sample_run)
  have delete: "deleteReservationSB ?w (JNum (Fin 7)) cached_page =
      (Inl ?e, cached_page\<lparr>requests := [Delete ''reservations'' [(''id'', JNum (Fin 7))]]\<rparr>)"
    by (simp add: deleteReservationSB_def refusing_client_def sample_run)
  from throw_leaves_cache_and_events [of ?w cached_page ?e
      "cached_page\<lparr>requests := [categories_query]\<rparr>"]
  show ?thesis
    using public admin create update delete by simp
qed

end
